theory Spec2Isabelle
  imports Main "HOL-Library.AList"
begin

section \<open>The DOM service: viewport, scroll, pointer and keyboard state\<close>

text \<open>
  \<^verbatim>\<open>src/src/dom.service.ts\<close> holds two revisions of the class \<^verbatim>\<open>DOMService\<close>. The
  later one (lines 386 to 916) is embedded here; the earlier one has the same bodies for
  \<^verbatim>\<open>refreshViewport\<close>, \<^verbatim>\<open>refreshScroll\<close>, \<^verbatim>\<open>refreshVisible\<close>, \<^verbatim>\<open>onDocumentPointerUp\<close>,
  \<^verbatim>\<open>getOffsetFromVisible\<close>, \<^verbatim>\<open>getSelectedTextElement\<close> and \<^verbatim>\<open>convertToFormData\<close>, and its
  \<^verbatim>\<open>onDocumentPointerDown\<close> is the bare increment.

  JavaScript numbers are modelled as \<^typ>\<open>int\<close>: the numbers of this model are the integers
  among the doubles. The nested objects \<^verbatim>\<open>viewport\<close>,
  \<^verbatim>\<open>scroll\<close>, \<^verbatim>\<open>visible\<close> and \<^verbatim>\<open>pointerCoords\<close> are flattened into the fields of one
  record. The browser flags, the key code table, the cached scrollbar width and the
  references to the last pointer events are left out: none of the methods below reads
  them.
\<close>

record DOMService =
  idleTime :: int
  viewport_w :: int
  viewport_h :: int
  scroll_x :: int
  scroll_y :: int
  visible_x1 :: int
  visible_x2 :: int
  visible_y1 :: int
  visible_y2 :: int
  pressedKeys :: "int set"
  pointerCoords_x :: int
  pointerCoords_y :: int
  isPointerPressed :: int

text \<open>
  What the browser reports when a handler reads it: the sizes of \<^verbatim>\<open>docElement\<close> and
  \<^verbatim>\<open>window\<close> and the three places a scroll offset is looked for.
\<close>

record Browser =
  docElement_clientWidth :: int
  docElement_clientHeight :: int
  window_innerWidth :: int
  window_innerHeight :: int
  window_pageXOffset :: int
  window_pageYOffset :: int
  docElement_scrollLeft :: int
  docElement_scrollTop :: int
  body_scrollLeft :: int
  body_scrollTop :: int

text \<open>\<^verbatim>\<open>a || b\<close> on numbers: \<^verbatim>\<open>a\<close> when it is truthy (not zero), else \<^verbatim>\<open>b\<close>.\<close>

definition js_or :: "int \<Rightarrow> int \<Rightarrow> int" where
  "js_or a b = (if a \<noteq> 0 then a else b)"

definition IDLE_INTERVAL :: int where
  "IDLE_INTERVAL = 10000"

text \<open>
  \<^verbatim>\<open>a + b\<close> on numbers is the addition of doubles: the double nearest to the exact sum, and
  of two equally near ones the one whose significand is even. A significand has 53 bits, so
  every integer up to \<open>2 ^ 53\<close> in magnitude is a double, and a larger integer of \<open>k\<close> bits is
  one when it is a multiple of \<open>2 ^ (k - 53)\<close>. \<open>roundToDouble\<close> is this rounding on the integers
  (below \<open>2 ^ 1024\<close>, where the doubles end). The scroll offsets and the sizes of the viewport
  come from the browser and are not bounded by the code, so the two sums of \<^verbatim>\<open>refreshVisible\<close>
  are written with \<open>js_add\<close>. The counter of the pressed pointers and the idle time start
  at 0 and grow by 1 and by 10000 at a time; their sums are exact as long as they stay within
  \<open>2 ^ 53\<close> and are written with \<open>+\<close>.
\<close>

function bitLength :: "int \<Rightarrow> nat" where
  "bitLength m = (if m \<le> 0 then 0 else Suc (bitLength (m div 2)))"
  by auto

termination bitLength
  by (relation "measure nat") auto

declare bitLength.simps [simp del]

definition roundToDouble :: "int \<Rightarrow> int" where
  "roundToDouble i =
     (let m = \<bar>i\<bar>;
          ulp = 2 ^ (bitLength m - 53);
          q = m div ulp;
          r = m mod ulp;
          significand = (if 2 * r < ulp \<or> (2 * r = ulp \<and> even q) then q else q + 1)
      in sgn i * (significand * ulp))"

definition js_add :: "int \<Rightarrow> int \<Rightarrow> int" where
  "js_add a b = roundToDouble (a + b)"

definition refreshVisible :: "DOMService \<Rightarrow> DOMService" where
  "refreshVisible s =
     (let s1 = s\<lparr>visible_x1 := scroll_x s\<rparr>;
          s2 = s1\<lparr>visible_x2 := js_add (scroll_x s1) (viewport_w s1)\<rparr>;
          s3 = s2\<lparr>visible_y1 := scroll_y s2\<rparr>
      in s3\<lparr>visible_y2 := js_add (scroll_y s3) (viewport_h s3)\<rparr>)"

definition refreshViewport :: "Browser \<Rightarrow> DOMService \<Rightarrow> DOMService" where
  "refreshViewport b s =
     (let s1 = s\<lparr>viewport_w := max (docElement_clientWidth b) (js_or (window_innerWidth b) 0)\<rparr>;
          s2 = s1\<lparr>viewport_h := max (docElement_clientHeight b) (js_or (window_innerHeight b) 0)\<rparr>
      in refreshVisible s2)"

definition refreshScroll :: "Browser \<Rightarrow> DOMService \<Rightarrow> DOMService" where
  "refreshScroll b s =
     (let s1 = s\<lparr>scroll_x :=
                 js_or (js_or (window_pageXOffset b) (docElement_scrollLeft b)) (body_scrollLeft b)\<rparr>;
          s2 = s1\<lparr>scroll_y :=
                 js_or (js_or (window_pageYOffset b) (docElement_scrollTop b)) (body_scrollTop b)\<rparr>
      in refreshVisible s2)"

definition onWindowBlur :: "DOMService \<Rightarrow> DOMService" where
  "onWindowBlur s = s\<lparr>pressedKeys := {}\<rparr>"

definition onDocumentKeyDown :: "int \<Rightarrow> DOMService \<Rightarrow> DOMService" where
  "onDocumentKeyDown keyCode s = (s\<lparr>pressedKeys := insert keyCode (pressedKeys s)\<rparr>)\<lparr>idleTime := 0\<rparr>"

definition onDocumentKeyUp :: "int \<Rightarrow> DOMService \<Rightarrow> DOMService" where
  "onDocumentKeyUp keyCode s = s\<lparr>pressedKeys := pressedKeys s - {keyCode}\<rparr>"

definition isKeyPressed :: "DOMService \<Rightarrow> int \<Rightarrow> bool" where
  "isKeyPressed s keyCode = (keyCode \<in> pressedKeys s)"

definition onWindowResize :: "Browser \<Rightarrow> DOMService \<Rightarrow> DOMService" where
  "onWindowResize b s = (refreshViewport b s)\<lparr>idleTime := 0\<rparr>"

definition onDocumentScroll :: "Browser \<Rightarrow> DOMService \<Rightarrow> DOMService" where
  "onDocumentScroll b s = (refreshScroll b s)\<lparr>idleTime := 0\<rparr>"

definition onDocumentPointerMove :: "int \<Rightarrow> int \<Rightarrow> DOMService \<Rightarrow> DOMService" where
  "onDocumentPointerMove clientX clientY s =
     ((s\<lparr>pointerCoords_x := clientX\<rparr>)\<lparr>pointerCoords_y := clientY\<rparr>)\<lparr>idleTime := 0\<rparr>"

definition onDocumentPointerDown :: "DOMService \<Rightarrow> DOMService" where
  "onDocumentPointerDown s = (s\<lparr>isPointerPressed := isPointerPressed s + 1\<rparr>)\<lparr>idleTime := 0\<rparr>"

definition onDocumentPointerUp :: "DOMService \<Rightarrow> DOMService" where
  "onDocumentPointerUp s = s\<lparr>isPointerPressed := min 0 (isPointerPressed s)\<rparr>"

definition onIdleInterval :: "DOMService \<Rightarrow> DOMService" where
  "onIdleInterval s = s\<lparr>idleTime := idleTime s + IDLE_INTERVAL\<rparr>"

text \<open>The field initialisers of the class, before the body of the constructor runs.\<close>

definition initialFields :: DOMService where
  "initialFields =
     \<lparr>idleTime = 0, viewport_w = 0, viewport_h = 0, scroll_x = 0, scroll_y = 0,
      visible_x1 = 0, visible_x2 = 0, visible_y1 = 0, visible_y2 = 0,
      pressedKeys = {}, pointerCoords_x = 0, pointerCoords_y = 0, isPointerPressed = 0\<rparr>"

text \<open>
  The constructor registers the handlers and then calls \<^verbatim>\<open>refreshViewport\<close> and
  \<^verbatim>\<open>refreshScroll\<close>. Registration is the dispatch function \<open>handle\<close> below.
\<close>

definition constructor :: "Browser \<Rightarrow> DOMService" where
  "constructor b = refreshScroll b (refreshViewport b initialFields)"

text \<open>
  Everything that can happen to a service after its construction: the browser events the
  constructor listens to (with what the browser reports at that moment, or the fields of
  the event the handler reads), the interval timer, and direct calls of the three public
  refresh methods.
\<close>

datatype event =
    KeyDown int
  | KeyUp int
  | PointerMove int int
  | PointerDown
  | PointerUp
  | Scroll Browser
  | Resize Browser
  | WindowBlur
  | IdleInterval
  | CallRefreshViewport Browser
  | CallRefreshScroll Browser
  | CallRefreshVisible

fun handle :: "DOMService \<Rightarrow> event \<Rightarrow> DOMService" where
  "handle s (KeyDown keyCode) = onDocumentKeyDown keyCode s"
| "handle s (KeyUp keyCode) = onDocumentKeyUp keyCode s"
| "handle s (PointerMove clientX clientY) = onDocumentPointerMove clientX clientY s"
| "handle s PointerDown = onDocumentPointerDown s"
| "handle s PointerUp = onDocumentPointerUp s"
| "handle s (Scroll b) = onDocumentScroll b s"
| "handle s (Resize b) = onWindowResize b s"
| "handle s WindowBlur = onWindowBlur s"
| "handle s IdleInterval = onIdleInterval s"
| "handle s (CallRefreshViewport b) = refreshViewport b s"
| "handle s (CallRefreshScroll b) = refreshScroll b s"
| "handle s CallRefreshVisible = refreshVisible s"

definition run :: "Browser \<Rightarrow> event list \<Rightarrow> DOMService" where
  "run b evs = foldl handle (constructor b) evs"


section \<open>Exceptions of the host\<close>

datatype error = TypeError | URIError | HierarchyRequestError | NotFoundError

section \<open>The DOM service: form data\<close>

text \<open>
  JavaScript values as far as \<^verbatim>\<open>convertToFormData\<close> tells them apart. An object is the list
  of its enumerable properties in the order \<^verbatim>\<open>for ... in\<close> visits them; an array is the list
  of its elements (no holes). Strings are \<^typ>\<open>string\<close>.
\<close>

datatype jsval =
    JUndefined
  | JNull
  | JBoolean bool
  | JNumber int
  | JString string
  | JSymbol string
  | JBigInt int
  | JFile string
  | JArray "jsval list"
  | JObject "(string \<times> jsval) list"
  | JFunction "(string \<times> jsval) list"

fun typeof :: "jsval \<Rightarrow> string" where
  "typeof JUndefined = ''undefined''"
| "typeof JNull = ''object''"
| "typeof (JBoolean b) = ''boolean''"
| "typeof (JNumber n) = ''number''"
| "typeof (JString s) = ''string''"
| "typeof (JSymbol d) = ''symbol''"
| "typeof (JBigInt n) = ''bigint''"
| "typeof (JFile name) = ''object''"
| "typeof (JArray xs) = ''object''"
| "typeof (JObject ps) = ''object''"
| "typeof (JFunction ps) = ''function''"

text \<open>\<^verbatim>\<open>Object.prototype.toString.call(v)\<close>.\<close>

fun toString_call :: "jsval \<Rightarrow> string" where
  "toString_call JUndefined = ''[object Undefined]''"
| "toString_call JNull = ''[object Null]''"
| "toString_call (JBoolean b) = ''[object Boolean]''"
| "toString_call (JNumber n) = ''[object Number]''"
| "toString_call (JString s) = ''[object String]''"
| "toString_call (JSymbol d) = ''[object Symbol]''"
| "toString_call (JBigInt n) = ''[object BigInt]''"
| "toString_call (JFile name) = ''[object File]''"
| "toString_call (JArray xs) = ''[object Array]''"
| "toString_call (JObject ps) = ''[object Object]''"
| "toString_call (JFunction ps) = ''[object Function]''"

text \<open>Truthiness, for the one place the code tests a boolean: \<^verbatim>\<open>type === 'boolean' && val\<close>.\<close>

fun truthy :: "jsval \<Rightarrow> bool" where
  "truthy JUndefined = False"
| "truthy JNull = False"
| "truthy (JBoolean b) = b"
| "truthy (JNumber n) = (n \<noteq> 0)"
| "truthy (JString s) = (s \<noteq> [])"
| "truthy (JBigInt n) = (n \<noteq> 0)"
| "truthy v = True"

text \<open>\<^verbatim>\<open>v != null\<close> is false for \<^verbatim>\<open>null\<close> and for \<^verbatim>\<open>undefined\<close>.\<close>

definition loosely_null :: "jsval \<Rightarrow> bool" where
  "loosely_null v = (v = JNull \<or> v = JUndefined)"

definition isFile :: "jsval \<Rightarrow> bool" where
  "isFile obj = (toString_call obj = ''[object File]'')"

definition isObject :: "jsval \<Rightarrow> bool" where
  "isObject v = (let type = typeof v in \<not> loosely_null v \<and> (type = ''object'' \<or> type = ''function''))"

fun Array_isArray :: "jsval \<Rightarrow> bool" where
  "Array_isArray (JArray xs) = True"
| "Array_isArray v = False"

fun elements :: "jsval \<Rightarrow> jsval list" where
  "elements (JArray xs) = xs"
| "elements v = []"

text \<open>The enumerable properties a \<^verbatim>\<open>for ... in\<close> loop visits, and the read \<^verbatim>\<open>obj[key]\<close>.\<close>

fun properties :: "jsval \<Rightarrow> (string \<times> jsval) list" where
  "properties (JObject ps) = ps"
| "properties (JFunction ps) = ps"
| "properties v = []"

definition for_in_keys :: "(string \<times> jsval) list \<Rightarrow> string list" where
  "for_in_keys ps = map fst ps"

definition get_property :: "(string \<times> jsval) list \<Rightarrow> string \<Rightarrow> jsval" where
  "get_property ps key = (case map_of ps key of None \<Rightarrow> JUndefined | Some v \<Rightarrow> v)"

text \<open>
  A \<^verbatim>\<open>FormData\<close> is the list of its entries, in the order they were appended.
  \<^verbatim>\<open>fd.append(name, value)\<close> keeps a \<^verbatim>\<open>File\<close> as it is and converts every other value to a
  string. The conversion of a \<^verbatim>\<open>Symbol\<close> throws \<^verbatim>\<open>TypeError\<close>. That of an array joins the
  conversions of its elements, so it throws when that of an element does. An object or a
  function with no \<^verbatim>\<open>toString\<close> among its properties is converted by the \<^verbatim>\<open>toString\<close> of its
  prototype, which returns a string. With a \<^verbatim>\<open>toString\<close> of its own the conversion calls
  it, or \<^verbatim>\<open>valueOf\<close>, when they are functions, and throws \<^verbatim>\<open>TypeError\<close> when they are not;
  the model holds no bodies of functions and has the conversion throw for every such
  value. \<open>convertible\<close> holds of the values whose conversion returns.
\<close>

type_synonym FormData = "(string \<times> jsval) list"

fun convertible :: "jsval \<Rightarrow> bool" where
  "convertible (JSymbol d) = False"
| "convertible (JArray xs) = list_all convertible xs"
| "convertible (JObject ps) = (''toString'' \<notin> set (map fst ps))"
| "convertible (JFunction ps) = (''toString'' \<notin> set (map fst ps))"
| "convertible v = True"

definition fd_append :: "FormData \<Rightarrow> string \<Rightarrow> jsval \<Rightarrow> error + FormData" where
  "fd_append fd name v = (if convertible v then Inr (fd @ [(name, v)]) else Inl TypeError)"

text \<open>
  A loop whose body may throw: the rounds run in order on the form data built so far, and
  the first exception ends the loop and is the outcome.
\<close>

fun forEach :: "('s \<Rightarrow> 'a \<Rightarrow> error + 's) \<Rightarrow> 's \<Rightarrow> 'a list \<Rightarrow> error + 's" where
  "forEach round s [] = Inr s"
| "forEach round s (x # xs) = (case round s x of Inl e \<Rightarrow> Inl e | Inr s' \<Rightarrow> forEach round s' xs)"

text \<open>One round of the outer loop of \<^verbatim>\<open>convertToFormData\<close>, on the form data built so far.\<close>

definition convert_key :: "(string \<times> jsval) list \<Rightarrow> FormData \<Rightarrow> string \<Rightarrow> error + FormData" where
  "convert_key data fd key =
     (let val = get_property data key;
          type = typeof val
      in if type = ''string'' \<or> type = ''number'' \<or> (type = ''boolean'' \<and> truthy val) \<or> isFile val
         then fd_append fd key val
         else if Array_isArray val
         then forEach (\<lambda>fd innerVal. fd_append fd (key @ ''[]'') innerVal) fd (elements val)
         else if isObject val
         then forEach (\<lambda>fd innerKey.
                         let innerVal = get_property (properties val) innerKey
                         in fd_append fd (key @ ''['' @ innerKey @ '']'') innerVal)
                fd (for_in_keys (properties val))
         else Inr fd)"

text \<open>
  \<^verbatim>\<open>convertToFormData\<close> returns the form data, or throws what an \<^verbatim>\<open>fd.append\<close> threw; the
  form data built until then is lost with the call.
\<close>

definition convertToFormData :: "(string \<times> jsval) list \<Rightarrow> error + FormData" where
  "convertToFormData data = forEach (convert_key data) [] (for_in_keys data)"

text \<open>
  The claim's words, for comparison with the code: what one key of the input adds to the
  form data, by the kind of its value. The claim names strings, numbers, booleans, files,
  arrays, nested objects, \<^verbatim>\<open>null\<close> and \<^verbatim>\<open>undefined\<close>; \<open>claimed_kind\<close> holds of these.
  \<open>claimed_convertible\<close> holds when every value the claim has appended for the key can be
  appended.
\<close>

fun claimed_entries :: "string \<Rightarrow> jsval \<Rightarrow> FormData" where
  "claimed_entries key (JString s) = [(key, JString s)]"
| "claimed_entries key (JNumber n) = [(key, JNumber n)]"
| "claimed_entries key (JBoolean True) = [(key, JBoolean True)]"
| "claimed_entries key (JFile name) = [(key, JFile name)]"
| "claimed_entries key (JArray xs) = map (\<lambda>x. (key @ ''[]'', x)) xs"
| "claimed_entries key (JObject ps) = map (\<lambda>(innerKey, innerVal). (key @ ''['' @ innerKey @ '']'', innerVal)) ps"
| "claimed_entries key v = []"

fun claimed_kind :: "jsval \<Rightarrow> bool" where
  "claimed_kind (JSymbol d) = False"
| "claimed_kind (JBigInt n) = False"
| "claimed_kind (JFunction ps) = False"
| "claimed_kind (JObject ps) = distinct (map fst ps)"
| "claimed_kind v = True"

definition claimed_convertible :: "string \<Rightarrow> jsval \<Rightarrow> bool" where
  "claimed_convertible key v = list_all (\<lambda>(name, x). convertible x) (claimed_entries key v)"


section \<open>The DOM service: query strings\<close>

text \<open>
  \<^verbatim>\<open>decodeURIComponent\<close> is a function of the host. A string is modelled by the bytes of
  its UTF-8 encoding, so the decoder copies every character but \<^verbatim>\<open>%\<close>, reads \<^verbatim>\<open>%XX\<close> as the
  byte \<^verbatim>\<open>XX\<close>, and raises \<^verbatim>\<open>URIError\<close> when a \<^verbatim>\<open>%\<close> is not followed by two hexadecimal
  digits or when the escaped bytes from \<^verbatim>\<open>0x80\<close> up are not the UTF-8 encoding of code
  points (overlong forms, surrogates and values above \<^verbatim>\<open>0x10FFFF\<close> included).
\<close>

definition hexValue :: "char \<Rightarrow> nat option" where
  "hexValue c =
     (let n = (of_char c :: nat)
      in if 48 \<le> n \<and> n \<le> 57 then Some (n - 48)
         else if 65 \<le> n \<and> n \<le> 70 then Some (n - 55)
         else if 97 \<le> n \<and> n \<le> 102 then Some (n - 87)
         else None)"

datatype token = Literal char | Escape nat | Malformed

fun tokens :: "string \<Rightarrow> token list" where
  "tokens [] = []"
| "tokens (c # cs) =
     (if c \<noteq> CHR ''%'' then Literal c # tokens cs
      else (case cs of
              a # b # rest \<Rightarrow>
                (case (hexValue a, hexValue b) of
                   (Some x, Some y) \<Rightarrow> Escape (16 * x + y) # tokens rest
                 | _ \<Rightarrow> [Malformed])
            | _ \<Rightarrow> [Malformed]))"

text \<open>The number of bytes a lead byte from \<^verbatim>\<open>0x80\<close> up announces; 0 when it cannot lead.\<close>

definition sequenceLength :: "nat \<Rightarrow> nat" where
  "sequenceLength b =
     (if 192 \<le> b \<and> b < 224 then 2
      else if 224 \<le> b \<and> b < 240 then 3
      else if 240 \<le> b \<and> b < 248 then 4
      else 0)"

definition continuation :: "nat \<Rightarrow> bool" where
  "continuation b = (128 \<le> b \<and> b < 192)"

text \<open>A lead byte and its continuation bytes encode a code point (the lengths match already).\<close>

fun validUTF8 :: "nat list \<Rightarrow> bool" where
  "validUTF8 [b0, b1] = (194 \<le> b0)"
| "validUTF8 [b0, b1, b2] = (if b0 = 224 then 160 \<le> b1 else if b0 = 237 then b1 < 160 else True)"
| "validUTF8 [b0, b1, b2, b3] =
     (if b0 = 240 then 144 \<le> b1 else if b0 = 244 then b1 < 144 else b0 < 244)"
| "validUTF8 bs = False"

text \<open>
  \<open>decode octets k ts\<close>: the bytes of the sequence being read, the number of continuation
  bytes it still needs, and the tokens left.
\<close>

fun decode :: "nat list \<Rightarrow> nat \<Rightarrow> token list \<Rightarrow> error + string" where
  "decode octets 0 [] = Inr []"
| "decode octets (Suc n) [] = Inl URIError"
| "decode octets k (Malformed # ts) = Inl URIError"
| "decode octets 0 (Literal c # ts) =
     (case decode [] 0 ts of Inl e \<Rightarrow> Inl e | Inr s \<Rightarrow> Inr (c # s))"
| "decode octets (Suc n) (Literal c # ts) = Inl URIError"
| "decode octets 0 (Escape b # ts) =
     (if b < 128 then (case decode [] 0 ts of Inl e \<Rightarrow> Inl e | Inr s \<Rightarrow> Inr (char_of b # s))
      else if sequenceLength b = 0 then Inl URIError
      else decode [b] (sequenceLength b - 1) ts)"
| "decode octets (Suc n) (Escape b # ts) =
     (if \<not> continuation b then Inl URIError
      else if n > 0 then decode (octets @ [b]) n ts
      else if \<not> validUTF8 (octets @ [b]) then Inl URIError
      else (case decode [] 0 ts of Inl e \<Rightarrow> Inl e | Inr s \<Rightarrow> Inr (map char_of (octets @ [b]) @ s)))"

definition decodeURIComponent :: "string \<Rightarrow> error + string" where
  "decodeURIComponent s = decode [] 0 (tokens s)"

text \<open>
  An argument that may be \<^verbatim>\<open>undefined\<close> (an index past the end of an array) is converted
  to the string \<^verbatim>\<open>"undefined"\<close> first.
\<close>

definition decodeURIComponent_of :: "string option \<Rightarrow> error + string" where
  "decodeURIComponent_of arg =
     (case arg of None \<Rightarrow> decodeURIComponent ''undefined'' | Some s \<Rightarrow> decodeURIComponent s)"

text \<open>\<^verbatim>\<open>s.split(c)\<close> for a separator of one character: never the empty list.\<close>

fun js_split :: "char \<Rightarrow> string \<Rightarrow> string list" where
  "js_split sep [] = [[]]"
| "js_split sep (c # cs) =
     (if c = sep then [] # js_split sep cs
      else (case js_split sep cs of [] \<Rightarrow> [[c]] | piece # pieces \<Rightarrow> (c # piece) # pieces))"

text \<open>\<^verbatim>\<open>xs[i]\<close> on an array of strings: \<^verbatim>\<open>undefined\<close> past the end.\<close>

definition at_index :: "string list \<Rightarrow> nat \<Rightarrow> string option" where
  "at_index xs i = (if i < length xs then Some (xs ! i) else None)"

text \<open>
  The object \<^verbatim>\<open>query_string\<close>: its own properties in the order they were created, each a
  string or an array of strings. A read of a key it does not own goes to
  \<^verbatim>\<open>Object.prototype\<close>, whose members are functions, but for the accessor \<^verbatim>\<open>__proto__\<close>,
  which yields the prototype object.
\<close>

datatype qvalue = QString string | QArray "string list"

type_synonym query_object = "(string \<times> qvalue) list"

definition Object_prototype_keys :: "string list" where
  "Object_prototype_keys =
     [''constructor'', ''__defineGetter__'', ''__defineSetter__'', ''hasOwnProperty'',
      ''__lookupGetter__'', ''__lookupSetter__'', ''isPrototypeOf'', ''propertyIsEnumerable'',
      ''toString'', ''valueOf'', ''toLocaleString'']"

definition typeof_member :: "query_object \<Rightarrow> string \<Rightarrow> string" where
  "typeof_member query_string key =
     (case map_of query_string key of
        Some (QString s) \<Rightarrow> ''string''
      | Some (QArray a) \<Rightarrow> ''object''
      | None \<Rightarrow>
          if key = ''__proto__'' then ''object''
          else if key \<in> set Object_prototype_keys then ''function''
          else ''undefined'')"

text \<open>
  One round of the loop of \<^verbatim>\<open>parseQueryString\<close>. In the last branch \<^verbatim>\<open>push\<close> is looked up
  on what the key holds, the argument is decoded, and the call fails with \<^verbatim>\<open>TypeError\<close>
  when what the key holds is not an array (a member of \<^verbatim>\<open>Object.prototype\<close>).
\<close>

definition parse_pair :: "query_object \<Rightarrow> string \<Rightarrow> error + query_object" where
  "parse_pair query_string var =
     (let pair = js_split CHR ''='' var
      in case decodeURIComponent_of (at_index pair 0) of
           Inl e \<Rightarrow> Inl e
         | Inr key \<Rightarrow>
             (case decodeURIComponent_of (at_index pair 1) of
                Inl e \<Rightarrow> Inl e
              | Inr val \<Rightarrow>
                  if typeof_member query_string key = ''undefined''
                  then (case decodeURIComponent val of
                          Inl e \<Rightarrow> Inl e
                        | Inr v \<Rightarrow> Inr (AList.update key (QString v) query_string))
                  else if typeof_member query_string key = ''string''
                  then (case (map_of query_string key, decodeURIComponent val) of
                          (Some (QString first), Inr v) \<Rightarrow>
                            Inr (AList.update key (QArray [first, v]) query_string)
                        | (_, Inl e) \<Rightarrow> Inl e
                        | _ \<Rightarrow> Inl TypeError)
                  else (case (map_of query_string key, decodeURIComponent val) of
                          (_, Inl e) \<Rightarrow> Inl e
                        | (Some (QArray arr), Inr v) \<Rightarrow>
                            Inr (AList.update key (QArray (arr @ [v])) query_string)
                        | _ \<Rightarrow> Inl TypeError)))"

fun parse_pairs :: "query_object \<Rightarrow> string list \<Rightarrow> error + query_object" where
  "parse_pairs query_string [] = Inr query_string"
| "parse_pairs query_string (var # vars) =
     (case parse_pair query_string var of
        Inl e \<Rightarrow> Inl e
      | Inr query_string' \<Rightarrow> parse_pairs query_string' vars)"

definition parseQueryString :: "string \<Rightarrow> error + query_object" where
  "parseQueryString query = parse_pairs [] (js_split CHR ''&'' query)"

section \<open>The DOM service: the selected text element\<close>

text \<open>
  What \<^verbatim>\<open>getSelectedTextElement\<close> reads from the host. \<^verbatim>\<open>window.getSelection()\<close> throws,
  or returns \<^verbatim>\<open>null\<close>, or returns a selection whose \<^verbatim>\<open>anchorNode\<close> is \<^verbatim>\<open>null\<close> or a node
  with its \<^verbatim>\<open>parentNode\<close> (\<^verbatim>\<open>null\<close> or a node). The legacy \<^verbatim>\<open>document.selection\<close> is
  \<^verbatim>\<open>undefined\<close>, or its \<^verbatim>\<open>createRange()\<close> throws, or the \<^verbatim>\<open>parentElement()\<close> of the range
  throws or returns \<^verbatim>\<open>null\<close> or an element. Nodes are numbers.
\<close>

datatype anchorNode = AnchorNull | AnchorNode "nat option"

datatype getSelection = GetSelectionThrows error | GetSelectionNull | GetSelectionReturns anchorNode

datatype documentSelection =
    SelectionUndefined
  | CreateRangeThrows error
  | ParentElementThrows error
  | ParentElementReturns "nat option"

record SelectionHost =
  window_getSelection :: getSelection
  document_selection :: documentSelection

text \<open>What a variable that holds a node may hold.\<close>

datatype nodeRef = RefUndefined | RefNull | RefNode nat

definition nullable :: "nat option \<Rightarrow> nodeRef" where
  "nullable n = (case n of None \<Rightarrow> RefNull | Some k \<Rightarrow> RefNode k)"

text \<open>The body of the \<^verbatim>\<open>catch\<close> block; reading a property of \<^verbatim>\<open>undefined\<close> is a \<^verbatim>\<open>TypeError\<close>.\<close>

definition legacySelection :: "SelectionHost \<Rightarrow> error + nodeRef" where
  "legacySelection h =
     (case document_selection h of
        SelectionUndefined \<Rightarrow> Inl TypeError
      | CreateRangeThrows e \<Rightarrow> Inl e
      | ParentElementThrows e \<Rightarrow> Inl e
      | ParentElementReturns n \<Rightarrow> Inr (nullable n))"

definition getSelectedTextElement :: "SelectionHost \<Rightarrow> error + nodeRef" where
  "getSelectedTextElement h =
     (case window_getSelection h of
        GetSelectionThrows e \<Rightarrow> legacySelection h
      | GetSelectionNull \<Rightarrow> legacySelection h
      | GetSelectionReturns AnchorNull \<Rightarrow> Inr RefUndefined
      | GetSelectionReturns (AnchorNode parentNode) \<Rightarrow> Inr (nullable parentNode))"

section \<open>The document\<close>

text \<open>
  The panel works on the DOM of the host. It is modelled as a store of nodes, each a
  number: the nodes created so far, the parent and the child list of each node, and the
  attributes of each node in the order they were set. \<^verbatim>\<open>document.documentElement\<close> and
  \<^verbatim>\<open>document.body\<close> are two of the nodes. All nodes are elements, so \<^verbatim>\<open>parentNode\<close> and
  \<^verbatim>\<open>parentElement\<close> agree; the \<^verbatim>\<open>Document\<close> node above \<^verbatim>\<open>documentElement\<close> is not a node of
  the store, so \<^verbatim>\<open>documentElement\<close> has no parent here.
\<close>

record Document =
  nodes :: "nat list"
  parentOf :: "nat \<Rightarrow> nat option"
  childrenOf :: "nat \<Rightarrow> nat list"
  attributesOf :: "nat \<Rightarrow> (string \<times> string) list"
  documentElement :: nat
  body :: nat

text \<open>
  \<open>ancestorWithin k par a b\<close>: \<open>a\<close> is \<open>b\<close> or one of the first \<open>k\<close> ancestors of \<open>b\<close>.
  \<^verbatim>\<open>a.contains(b)\<close> looks as far up as the store has nodes, which reaches every ancestor.
\<close>

fun ancestorWithin :: "nat \<Rightarrow> (nat \<Rightarrow> nat option) \<Rightarrow> nat \<Rightarrow> nat \<Rightarrow> bool" where
  "ancestorWithin 0 par a b = (a = b)"
| "ancestorWithin (Suc k) par a b =
     (a = b \<or> (case par b of None \<Rightarrow> False | Some p \<Rightarrow> ancestorWithin k par a p))"

definition contains :: "Document \<Rightarrow> nat \<Rightarrow> nat \<Rightarrow> bool" where
  "contains d a b = ancestorWithin (length (nodes d)) (parentOf d) a b"

text \<open>\<^verbatim>\<open>a.contains(x)\<close> where \<^verbatim>\<open>x\<close> may be \<^verbatim>\<open>undefined\<close> or \<^verbatim>\<open>null\<close>: false then.\<close>

definition containsRef :: "Document \<Rightarrow> nat \<Rightarrow> nat option \<Rightarrow> bool" where
  "containsRef d a x = (case x of None \<Rightarrow> False | Some b \<Rightarrow> contains d a b)"

definition nextSibling :: "Document \<Rightarrow> nat \<Rightarrow> nat option" where
  "nextSibling d n =
     (case parentOf d n of
        None \<Rightarrow> None
      | Some p \<Rightarrow>
          (case dropWhile (\<lambda>c. c \<noteq> n) (childrenOf d p) of
             c # s # rest \<Rightarrow> Some s
           | _ \<Rightarrow> None))"

definition getAttribute :: "Document \<Rightarrow> nat \<Rightarrow> string \<Rightarrow> string option" where
  "getAttribute d n name = map_of (attributesOf d n) name"

definition setAttribute :: "nat \<Rightarrow> string \<Rightarrow> string \<Rightarrow> Document \<Rightarrow> Document" where
  "setAttribute n name v d =
     d\<lparr>attributesOf := (attributesOf d)(n := AList.update name v (attributesOf d n))\<rparr>"

definition removeAttribute :: "nat \<Rightarrow> string \<Rightarrow> Document \<Rightarrow> Document" where
  "removeAttribute n name d =
     d\<lparr>attributesOf := (attributesOf d)(n := AList.delete name (attributesOf d n))\<rparr>"

text \<open>
  A write to a property of \<^verbatim>\<open>element.style\<close> shows in the \<^verbatim>\<open>style\<close> attribute. The text
  the browser serialises is modelled by appending the declaration to the attribute.
\<close>

definition setStyleProperty :: "nat \<Rightarrow> string \<Rightarrow> string \<Rightarrow> Document \<Rightarrow> Document" where
  "setStyleProperty n property v d =
     setAttribute n ''style''
       ((case getAttribute d n ''style'' of None \<Rightarrow> [] | Some css \<Rightarrow> css) @ property @ '': '' @ v @ '';'')
       d"

text \<open>Taking a node out of the child list of its parent, as every insertion does first.\<close>

definition detach :: "nat \<Rightarrow> Document \<Rightarrow> Document" where
  "detach n d =
     (case parentOf d n of
        None \<Rightarrow> d
      | Some p \<Rightarrow>
          d\<lparr>parentOf := (parentOf d)(n := None),
            childrenOf := (childrenOf d)(p := removeAll n (childrenOf d p))\<rparr>)"

definition insertInto :: "nat list \<Rightarrow> nat \<Rightarrow> nat option \<Rightarrow> nat list" where
  "insertInto cs n ref =
     (case ref of
        None \<Rightarrow> cs @ [n]
      | Some r \<Rightarrow> takeWhile (\<lambda>c. c \<noteq> r) cs @ n # dropWhile (\<lambda>c. c \<noteq> r) cs)"

text \<open>
  \<^verbatim>\<open>parent.insertBefore(n, ref)\<close> of the DOM standard: refused when \<open>n\<close> is \<open>parent\<close> or
  one of its ancestors, or when \<open>ref\<close> is not a child of \<open>parent\<close>; when \<open>ref\<close> is \<open>n\<close>
  itself the node goes before its own next sibling.
\<close>

definition insertBefore :: "nat \<Rightarrow> nat \<Rightarrow> nat option \<Rightarrow> Document \<Rightarrow> error + Document" where
  "insertBefore parent n ref d =
     (if contains d n parent then Inl HierarchyRequestError
      else if (case ref of None \<Rightarrow> False | Some r \<Rightarrow> parentOf d r \<noteq> Some parent) then Inl NotFoundError
      else
        (let ref' = (if ref = Some n then nextSibling d n else ref);
             d1 = detach n d
         in Inr (d1\<lparr>parentOf := (parentOf d1)(n := Some parent),
                     childrenOf := (childrenOf d1)(parent := insertInto (childrenOf d1 parent) n ref')\<rparr>)))"

definition appendChild :: "nat \<Rightarrow> nat \<Rightarrow> Document \<Rightarrow> error + Document" where
  "appendChild parent n d = insertBefore parent n None d"

definition removeChild :: "nat \<Rightarrow> nat \<Rightarrow> Document \<Rightarrow> error + Document" where
  "removeChild parent n d =
     (if parentOf d n \<noteq> Some parent then Inl NotFoundError else Inr (detach n d))"

text \<open>
  \<^verbatim>\<open>n.cloneNode(true)\<close>: every node of the subtree of \<open>n\<close> gets a copy, numbered past all
  nodes of the store, with the attributes of the original and with the copies of its
  children as children. The copy of \<open>n\<close> has no parent.
\<close>

definition freshOffset :: "Document \<Rightarrow> nat" where
  "freshOffset d = Suc (foldr max (nodes d) 0)"

definition cloneNode :: "nat \<Rightarrow> Document \<Rightarrow> nat \<times> Document" where
  "cloneNode n d =
     (let k = freshOffset d;
          subtree = filter (contains d n) (nodes d);
          isCopy = (\<lambda>x. k \<le> x \<and> x - k \<in> set subtree)
      in (n + k,
          d\<lparr>nodes := nodes d @ map (\<lambda>x. x + k) subtree,
            parentOf := (\<lambda>x. if isCopy x
                              then (if x = n + k then None
                                    else map_option (\<lambda>p. p + k) (parentOf d (x - k)))
                              else parentOf d x),
            childrenOf := (\<lambda>x. if isCopy x then map (\<lambda>c. c + k) (childrenOf d (x - k))
                                else childrenOf d x),
            attributesOf := (\<lambda>x. if isCopy x then attributesOf d (x - k) else attributesOf d x)\<rparr>))"

section \<open>The panel\<close>

text \<open>
  \<^verbatim>\<open>src/unnamed/part_000\<close>: the class \<^verbatim>\<open>PanelComponent\<close>. The state of the program is one
  record: the document, what the layout engine reports for the node of the panel, the DOM
  service, the fields of the panel (the private ones without their underscore), its
  configuration getters, and the part of the event loop the panel uses: the listeners
  that are bound, and the callbacks of \<^verbatim>\<open>setTimeout(..., 0)\<close> that wait.
\<close>

datatype PanelComponentStates = Open | Closed

definition OPENING :: string where
  "OPENING = ''opening''"

definition DISMOUNTING :: string where
  "DISMOUNTING = ''dismounting''"

record IDismountingParams =
  param_left :: "int option"
  param_top :: "int option"
  param_avatar :: "nat option"

definition noParams :: IDismountingParams where
  "noParams = \<lparr>param_left = None, param_top = None, param_avatar = None\<rparr>"

text \<open>
  The layout of the node of the panel, as the calls of one method read it:
  \<^verbatim>\<open>getBoundingClientRect()\<close>, \<^verbatim>\<open>offsetWidth\<close>, \<^verbatim>\<open>offsetHeight\<close>, the scroll offsets of
  \<^verbatim>\<open>document.documentElement\<close>, and \<^verbatim>\<open>parseFloat\<close> of the computed margins.
\<close>

record Layout =
  boundingClientRect_left :: int
  boundingClientRect_top :: int
  offsetWidth :: int
  offsetHeight :: int
  documentElement_scrollLeft :: int
  documentElement_scrollTop :: int
  computed_marginLeft :: int
  computed_marginTop :: int

text \<open>
  Modelled from the spec: the class \<^verbatim>\<open>Listener\<close> of \<^verbatim>\<open>./listener\<close> is not among the
  sources, and the spec says of it only that the panel keeps event listeners. It is
  taken to bind its handler to the target when it is constructed and to take it off
  again in \<^verbatim>\<open>unbind()\<close>. The three handlers the panel binds are named.
\<close>

datatype EventTarget = TargetWindow | TargetElement nat

datatype Handler = DismissOnPointerUp | CloseOnResize | CloseOnScroll

record Listener =
  listenerId :: nat
  listenerTarget :: EventTarget
  listenerType :: string
  listenerHandler :: Handler
  useCapture :: bool

datatype TimerCallback = ResumeOpen | RegisterDismissal

record World =
  doc :: Document
  layout :: Layout
  service :: DOMService
  state :: PanelComponentStates
  node :: nat
  overflowing :: "(string \<times> int) list option"
  avatar :: "nat option"
  originalParent :: "nat option"
  originalAttributes :: "(string \<times> string option) list option"
  isDismounted :: bool
  listeners :: "(string \<times> Listener list) list option"
  isDismountingNeeded :: bool
  postponeOverflowCalculating :: bool
  hasOnOpen :: bool
  hasOnClose :: bool
  hookCalls :: "string list"
  boundListeners :: "Listener list"
  nextListenerId :: nat
  timers :: "TimerCallback list"

text \<open>
  \<^verbatim>\<open>new PanelComponent(node)\<close> in a given document: the initialisers of the fields. The
  hooks \<^verbatim>\<open>onOpen\<close> and \<^verbatim>\<open>onClose\<close> are optional methods of a subclass; a call of one is
  recorded in \<open>hookCalls\<close>.
\<close>

definition newPanel :: "Document \<Rightarrow> Layout \<Rightarrow> DOMService \<Rightarrow> nat \<Rightarrow> World" where
  "newPanel d l s n =
     \<lparr>doc = d, layout = l, service = s, state = Closed, node = n, overflowing = None,
      avatar = None, originalParent = None, originalAttributes = None, isDismounted = False,
      listeners = None, isDismountingNeeded = False, postponeOverflowCalculating = False,
      hasOnOpen = False, hasOnClose = False, hookCalls = [], boundListeners = [],
      nextListenerId = 0, timers = []\<rparr>"

definition isOpen :: "World \<Rightarrow> bool" where
  "isOpen w = (state w = Open)"

definition isClosed :: "World \<Rightarrow> bool" where
  "isClosed w = (state w = Closed)"

definition getWidth :: "World \<Rightarrow> int" where
  "getWidth w = offsetWidth (layout w)"

definition getHeight :: "World \<Rightarrow> int" where
  "getHeight w = offsetHeight (layout w)"

subsection \<open>Listeners\<close>

definition listen :: "EventTarget \<Rightarrow> string \<Rightarrow> Handler \<Rightarrow> bool \<Rightarrow> World \<Rightarrow> Listener \<times> World" where
  "listen elem type h capture w =
     (let l = \<lparr>listenerId = nextListenerId w, listenerTarget = elem, listenerType = type,
                listenerHandler = h, useCapture = capture\<rparr>
      in (l, w\<lparr>boundListeners := boundListeners w @ [l], nextListenerId := Suc (nextListenerId w)\<rparr>))"

definition unbind :: "Listener \<Rightarrow> World \<Rightarrow> World" where
  "unbind l w = w\<lparr>boundListeners := filter (\<lambda>b. listenerId b \<noteq> listenerId l) (boundListeners w)\<rparr>"

definition addListener :: "string \<Rightarrow> EventTarget \<Rightarrow> string \<Rightarrow> Handler \<Rightarrow> bool \<Rightarrow> World \<Rightarrow> World" where
  "addListener namespace elem event h capture w =
     (let ls = (case listeners w of None \<Rightarrow> [] | Some ls \<Rightarrow> ls);
          ls1 = (case map_of ls namespace of None \<Rightarrow> AList.update namespace [] ls | Some xs \<Rightarrow> ls);
          (l, w1) = listen elem event h capture w
      in w1\<lparr>listeners :=
              Some (AList.update namespace
                      ((case map_of ls1 namespace of None \<Rightarrow> [] | Some xs \<Rightarrow> xs) @ [l]) ls1)\<rparr>)"

text \<open>
  \<^verbatim>\<open>this._listeners[namespace].forEach(...)\<close>: a \<^verbatim>\<open>TypeError\<close> when \<^verbatim>\<open>_listeners\<close> is
  \<^verbatim>\<open>undefined\<close> or has no list under the namespace.
\<close>

definition removeListeners :: "string \<Rightarrow> World \<Rightarrow> error option \<times> World" where
  "removeListeners namespace w =
     (case listeners w of
        None \<Rightarrow> (Some TypeError, w)
      | Some ls \<Rightarrow>
          (case map_of ls namespace of
             None \<Rightarrow> (Some TypeError, w)
           | Some xs \<Rightarrow> (None, foldl (\<lambda>w l. unbind l w) w xs)))"

subsection \<open>Overflow\<close>

record Offset =
  offset_left :: int
  offset_top :: int
  offset_right :: int
  offset_bottom :: int

text \<open>\<^verbatim>\<open>DOMService.getOffsetFromVisible(elem, params)\<close>, for the node of the panel.\<close>

definition getOffsetFromVisible :: "DOMService \<Rightarrow> Layout \<Rightarrow> int option \<Rightarrow> int option \<Rightarrow> Offset" where
  "getOffsetFromVisible s elem param_width param_height =
     (let width = (case param_width of None \<Rightarrow> offsetWidth elem | Some v \<Rightarrow> v);
          height = (case param_height of None \<Rightarrow> offsetHeight elem | Some v \<Rightarrow> v)
      in \<lparr>offset_left = boundingClientRect_left elem,
          offset_top = boundingClientRect_top elem,
          offset_right = viewport_w s - boundingClientRect_left elem - width,
          offset_bottom = viewport_h s - boundingClientRect_top elem - height\<rparr>)"

definition onNode :: "(nat \<Rightarrow> Document \<Rightarrow> Document) \<Rightarrow> World \<Rightarrow> World" where
  "onNode f w = w\<lparr>doc := f (node w) (doc w)\<rparr>"

definition recordOverflowing :: "string \<Rightarrow> int \<Rightarrow> World \<Rightarrow> World" where
  "recordOverflowing side v w =
     w\<lparr>overflowing := Some (AList.update side v (case overflowing w of None \<Rightarrow> [] | Some ov \<Rightarrow> ov))\<rparr>"

definition setOverflowingAttributes :: "World \<Rightarrow> World" where
  "setOverflowingAttributes w =
     (let offset = getOffsetFromVisible (service w) (layout w) (Some (getWidth w)) (Some (getHeight w));
          w0 = (if overflowing w = None then w\<lparr>overflowing := Some []\<rparr> else w);
          w1 = (if offset_left offset < 0
                then (let a = onNode (\<lambda>n. setAttribute n ''overflowing-left'' [])
                                (recordOverflowing ''left'' (offset_left offset) w0)
                      in if offset_left offset < offset_right offset
                         then onNode (\<lambda>n. setAttribute n ''x-direction'' ''right'') a else a)
                else w0);
          w2 = (if offset_right offset < 0
                then (let a = onNode (\<lambda>n. setAttribute n ''overflowing-right'' [])
                                (recordOverflowing ''right'' (offset_right offset) w1)
                      in if offset_left offset > offset_right offset
                         then onNode (\<lambda>n. setAttribute n ''x-direction'' ''left'') a else a)
                else w1);
          w3 = (if offset_bottom offset < 0
                then (let a = onNode (\<lambda>n. setAttribute n ''overflowing-bottom'' [])
                                (recordOverflowing ''bottom'' (offset_bottom offset) w2)
                      in if offset_top offset > offset_bottom offset
                         then onNode (\<lambda>n. setAttribute n ''y-direction'' ''top'') a else a)
                else w2);
          w4 = (if offset_top offset < 0
                then (let a = onNode (\<lambda>n. setAttribute n ''overflowing-top'' [])
                                (recordOverflowing ''top'' (offset_top offset) w3)
                      in if offset_top offset < offset_bottom offset
                         then onNode (\<lambda>n. setAttribute n ''y-direction'' ''bottom'') a else a)
                else w3)
      in onNode (\<lambda>n. setAttribute n ''overflowing-calculated'' ''true'') w4)"

definition removeOverflowingAttributes :: "World \<Rightarrow> World" where
  "removeOverflowingAttributes w =
     (let w1 = onNode (\<lambda>n. removeAttribute n ''x-direction'') w;
          w2 = onNode (\<lambda>n. removeAttribute n ''y-direction'') w1;
          w3 = (case overflowing w2 of
                  None \<Rightarrow> w2
                | Some ov \<Rightarrow>
                    foldl (\<lambda>w key. onNode (\<lambda>n. removeAttribute n (''overflowing-'' @ key)) w) w2 (map fst ov))
      in onNode (\<lambda>n. removeAttribute n ''overflowing-calculated'') w3)"

subsection \<open>Dismounting and mounting\<close>

text \<open>The decimal text of a number, for \<^verbatim>\<open>n + 'px'\<close>.\<close>

fun digits :: "nat \<Rightarrow> nat \<Rightarrow> string" where
  "digits 0 n = []"
| "digits (Suc fuel) n =
     (if n < 10 then [char_of (48 + n)] else digits fuel (n div 10) @ [char_of (48 + n mod 10)])"

definition number_toString :: "int \<Rightarrow> string" where
  "number_toString i =
     (if i < 0 then CHR ''-'' # digits (Suc (nat (- i))) (nat (- i)) else digits (Suc (nat i)) (nat i))"

definition px :: "int \<Rightarrow> string" where
  "px i = number_toString i @ ''px''"

definition onDoc :: "(Document \<Rightarrow> Document) \<Rightarrow> World \<Rightarrow> World" where
  "onDoc f w = w\<lparr>doc := f (doc w)\<rparr>"

text \<open>
  \<^verbatim>\<open>dismount\<close> in three parts, in the order of its statements: the defaults of the
  parameters and the three private fields (in \<open>dismount\<close> itself), the writes to the
  styles of the avatar and of the node (\<open>styleForDismount\<close>), and the two moves in the
  document with the two listeners (\<open>relocate\<close>). A missing parent is a \<^verbatim>\<open>TypeError\<close>
  at \<^verbatim>\<open>this.node.parentNode.insertBefore\<close>.
\<close>

definition styleForDismount :: "nat \<Rightarrow> int \<Rightarrow> int \<Rightarrow> World \<Rightarrow> World" where
  "styleForDismount a leftValue topValue w3 =
     (let w4 = onDoc (setStyleProperty a ''opacity'' ''0'') w3;
          w5 = onNode (\<lambda>n. setStyleProperty n ''width'' (px (getWidth w4))) w4;
          w6 = onNode (\<lambda>n. setStyleProperty n ''height'' (px (getHeight w5))) w5;
          w7 = onNode (\<lambda>n. setStyleProperty n ''position'' ''absolute'') w6;
          w8 = onNode (\<lambda>n. setStyleProperty n ''left'' (px leftValue)) w7;
          w9 = onNode (\<lambda>n. setStyleProperty n ''top'' (px topValue)) w8
      in onNode (\<lambda>n. setStyleProperty n ''z-index'' ''9999'') w9)"

definition relocate :: "nat \<Rightarrow> World \<Rightarrow> error option \<times> World" where
  "relocate a w10 =
     (case parentOf (doc w10) (node w10) of
        None \<Rightarrow> (Some TypeError, w10)
      | Some parent \<Rightarrow>
          (case insertBefore parent a (nextSibling (doc w10) (node w10)) (doc w10) of
             Inl e \<Rightarrow> (Some e, w10)
           | Inr d11 \<Rightarrow>
               (case appendChild (body d11) (node w10) d11 of
                  Inl e \<Rightarrow> (Some e, w10\<lparr>doc := d11\<rparr>)
                | Inr d12 \<Rightarrow>
                    (let w13 = addListener DISMOUNTING TargetWindow ''resize'' CloseOnResize False
                                 (w10\<lparr>doc := d12\<rparr>);
                         w14 = addListener DISMOUNTING TargetWindow ''scroll'' CloseOnScroll True w13
                     in (None, w14\<lparr>isDismounted := True\<rparr>)))))"

definition dismount :: "IDismountingParams \<Rightarrow> World \<Rightarrow> error option \<times> World" where
  "dismount params w =
     (let left = (case param_left params of
                    Some v \<Rightarrow> v
                  | None \<Rightarrow> boundingClientRect_left (layout w) + documentElement_scrollLeft (layout w)
                              - computed_marginLeft (layout w));
          top = (case param_top params of
                   Some v \<Rightarrow> v
                 | None \<Rightarrow> boundingClientRect_top (layout w) + documentElement_scrollTop (layout w)
                             - computed_marginTop (layout w));
          (a, d1) = (case param_avatar params of
                       Some v \<Rightarrow> (v, doc w)
                     | None \<Rightarrow> cloneNode (node w) (doc w));
          w1 = w\<lparr>doc := d1, avatar := Some a\<rparr>;
          w2 = w1\<lparr>originalAttributes := Some [(''style'', getAttribute (doc w1) (node w1) ''style'')]\<rparr>;
          w3 = w2\<lparr>originalParent := parentOf (doc w2) (node w2)\<rparr>
      in relocate a (styleForDismount a left top w3))"

text \<open>The loop of \<^verbatim>\<open>mount\<close> over the saved attributes; \<^verbatim>\<open>val || ''\<close> is \<^verbatim>\<open>val\<close> for a string.\<close>

definition restoreAttributes :: "World \<Rightarrow> World" where
  "restoreAttributes w =
     (case originalAttributes w of
        None \<Rightarrow> w
      | Some saved \<Rightarrow>
          foldl (\<lambda>w attributeKey.
                   case map_of saved attributeKey of
                     Some (Some v) \<Rightarrow> onNode (\<lambda>n. setAttribute n attributeKey v) w
                   | _ \<Rightarrow> onNode (\<lambda>n. removeAttribute n attributeKey) w)
            w (map fst saved))"

definition forget :: "World \<Rightarrow> World" where
  "forget w = w\<lparr>avatar := None, originalParent := None, originalAttributes := None\<rparr>"

text \<open>
  \<^verbatim>\<open>mount\<close>, after its loop: the \<^verbatim>\<open>if\<close> that puts the node after the avatar when the avatar
  is inside \<^verbatim>\<open>document.documentElement\<close> and takes the node out of its parent otherwise
  (\<open>placeNode\<close>), and the \<^verbatim>\<open>if\<close> that takes the avatar out of its parent (\<open>removeAvatar\<close>).
  A call on \<^verbatim>\<open>null\<close> or \<^verbatim>\<open>undefined\<close> is a \<^verbatim>\<open>TypeError\<close>.
\<close>

definition placeNode :: "World \<Rightarrow> error + Document" where
  "placeNode w1 =
     (if containsRef (doc w1) (documentElement (doc w1)) (avatar w1)
      then (case avatar w1 of
              None \<Rightarrow> Inl TypeError
            | Some a \<Rightarrow>
                (case parentOf (doc w1) a of
                   None \<Rightarrow> Inl TypeError
                 | Some p \<Rightarrow> insertBefore p (node w1) (nextSibling (doc w1) a) (doc w1)))
      else (case parentOf (doc w1) (node w1) of
              None \<Rightarrow> Inl TypeError
            | Some p \<Rightarrow> removeChild p (node w1) (doc w1)))"

definition removeAvatar :: "World \<Rightarrow> error + Document" where
  "removeAvatar w2 =
     (case avatar w2 of
        None \<Rightarrow> Inr (doc w2)
      | Some a \<Rightarrow>
          (case parentOf (doc w2) a of
             None \<Rightarrow> Inl TypeError
           | Some p \<Rightarrow> removeChild p a (doc w2)))"

definition mount :: "World \<Rightarrow> error option \<times> World" where
  "mount w =
     (let w1 = restoreAttributes w
      in case placeNode w1 of
           Inl e \<Rightarrow> (Some e, w1)
         | Inr d2 \<Rightarrow>
             (let w2 = w1\<lparr>doc := d2\<rparr>
              in case removeAvatar w2 of
                   Inl e \<Rightarrow> (Some e, w2)
                 | Inr d3 \<Rightarrow>
                     (case removeListeners DISMOUNTING (w2\<lparr>doc := d3\<rparr>) of
                        (Some e, w4) \<Rightarrow> (Some e, w4)
                      | (None, w4) \<Rightarrow> (None, (forget w4)\<lparr>isDismounted := False\<rparr>))))"

subsection \<open>Opening and closing\<close>

definition callHook :: "string \<Rightarrow> World \<Rightarrow> World" where
  "callHook name w = w\<lparr>hookCalls := hookCalls w @ [name]\<rparr>"

definition close :: "World \<Rightarrow> error option \<times> World" where
  "close w =
     (if isClosed w then (None, w)
      else
        (let w1 = w\<lparr>state := Closed\<rparr>;
             w2 = onNode (\<lambda>n. removeAttribute n ''open'') w1
         in case (if isDismounted w2 then mount w2 else (None, w2)) of
              (Some e, w3) \<Rightarrow> (Some e, w3)
            | (None, w3) \<Rightarrow>
                (let w4 = removeOverflowingAttributes w3;
                     w5 = (if hasOnClose w4 then callHook ''onClose'' w4 else w4)
                 in removeListeners OPENING w5)))"

text \<open>
  The rest of \<^verbatim>\<open>open\<close> from \<^verbatim>\<open>setOverflowingAttributes\<close> on. It runs at once, or, when
  \<^verbatim>\<open>postponeOverflowCalculating\<close> holds, when the timer the method awaits has fired. The
  registration of the dismissal listener is itself left to a timer.
\<close>

definition resumeOpen :: "World \<Rightarrow> World" where
  "resumeOpen w =
     (let w1 = setOverflowingAttributes w
      in w1\<lparr>timers := timers w1 @ [RegisterDismissal]\<rparr>)"

definition openPanel :: "IDismountingParams option \<Rightarrow> World \<Rightarrow> error option \<times> World" where
  "openPanel dismountingParams w =
     (if isOpen w then (None, w)
      else
        (case (if isDismountingNeeded w
               then dismount (case dismountingParams of None \<Rightarrow> noParams | Some ps \<Rightarrow> ps) w
               else (None, w)) of
           (Some e, w1) \<Rightarrow> (Some e, w1)
         | (None, w1) \<Rightarrow>
             (let w2 = w1\<lparr>state := Open\<rparr>;
                  w3 = onNode (\<lambda>n. setAttribute n ''open'' ''true'') w2;
                  w4 = (if hasOnOpen w3 then callHook ''onOpen'' w3 else w3)
              in if postponeOverflowCalculating w4
                 then (None, w4\<lparr>timers := timers w4 @ [ResumeOpen]\<rparr>)
                 else (None, resumeOpen w4))))"

definition toggle :: "World \<Rightarrow> error option \<times> World" where
  "toggle w = (if isOpen w then close w else openPanel None w)"

subsection \<open>Events\<close>

text \<open>
  What the host delivers: the next timer callback; a pointerup with its target, which
  bubbles to \<^verbatim>\<open>document.documentElement\<close> when the target is inside it; a resize of the
  window; a scroll with its target (\<open>None\<close> when the document itself scrolls). A listener
  is called when it is bound to the target and the type of the event, in the order of
  binding, unless an earlier listener of the same round has unbound it. An exception of
  a handler ends that handler only.
\<close>

datatype PanelEvent = TimerFires | PointerUpAt nat | WindowResize | WindowScroll "nat option"

definition onDocumentScroll_panel :: "nat option \<Rightarrow> World \<Rightarrow> World" where
  "onDocumentScroll_panel target w =
     (if Some (node w) \<noteq> target \<and> \<not> containsRef (doc w) (node w) target
      then snd (close w) else w)"

text \<open>The node an event targets; none for the window and for the document itself.\<close>

fun targetNode :: "PanelEvent \<Rightarrow> nat option" where
  "targetNode (PointerUpAt target) = Some target"
| "targetNode (WindowScroll target) = target"
| "targetNode e = None"

text \<open>
  The arrow function \<^verbatim>\<open>open\<close> binds to pointerup, \<^verbatim>\<open>close.bind(this)\<close>, and
  \<^verbatim>\<open>onDocumentScroll.bind(this)\<close>.
\<close>

fun runHandler :: "PanelEvent \<Rightarrow> Handler \<Rightarrow> World \<Rightarrow> World" where
  "runHandler e DismissOnPointerUp w =
     (let isInnerClick = containsRef (doc w) (node w) (targetNode e);
          needToClose = \<not> isInnerClick
      in if needToClose then snd (close w) else w)"
| "runHandler e CloseOnResize w = snd (close w)"
| "runHandler e CloseOnScroll w = onDocumentScroll_panel (targetNode e) w"

fun deliver :: "PanelEvent \<Rightarrow> Listener list \<Rightarrow> World \<Rightarrow> World" where
  "deliver e [] w = w"
| "deliver e (l # ls) w =
     deliver e ls
       (if listenerId l \<in> listenerId ` set (boundListeners w) then runHandler e (listenerHandler l) w else w)"

definition listenersFor :: "EventTarget \<Rightarrow> string \<Rightarrow> World \<Rightarrow> Listener list" where
  "listenersFor target type w =
     filter (\<lambda>l. listenerTarget l = target \<and> listenerType l = type) (boundListeners w)"

fun runTimer :: "TimerCallback \<Rightarrow> World \<Rightarrow> World" where
  "runTimer ResumeOpen w = resumeOpen w"
| "runTimer RegisterDismissal w =
     addListener OPENING (TargetElement (documentElement (doc w))) ''pointerup'' DismissOnPointerUp False w"

fun dispatch :: "World \<Rightarrow> PanelEvent \<Rightarrow> World" where
  "dispatch w TimerFires =
     (case timers w of [] \<Rightarrow> w | t # ts \<Rightarrow> runTimer t (w\<lparr>timers := ts\<rparr>))"
| "dispatch w (PointerUpAt target) =
     (if contains (doc w) (documentElement (doc w)) target
      then deliver (PointerUpAt target)
             (listenersFor (TargetElement (documentElement (doc w))) ''pointerup'' w) w
      else w)"
| "dispatch w WindowResize = deliver WindowResize (listenersFor TargetWindow ''resize'' w) w"
| "dispatch w (WindowScroll target) =
     deliver (WindowScroll target) (listenersFor TargetWindow ''scroll'' w) w"

section \<open>Predicates and sample inputs of the claims\<close>

text \<open>
  The visible rectangle as \<^verbatim>\<open>refreshVisible\<close> assigns it from the scroll offset and the
  viewport, the two sums being sums of doubles; the sides of the rectangle as the claim has
  them, the differences being those of the integers; and the states in which both sums are
  exact, because they stay within \<open>2 ^ 53\<close>.
\<close>

definition visibleDerived :: "DOMService \<Rightarrow> bool" where
  "visibleDerived s =
     (visible_x1 s = scroll_x s \<and> visible_y1 s = scroll_y s \<and>
      visible_x2 s = js_add (scroll_x s) (viewport_w s) \<and>
      visible_y2 s = js_add (scroll_y s) (viewport_h s))"

definition visibleSides :: "DOMService \<Rightarrow> bool" where
  "visibleSides s =
     (visible_x2 s - visible_x1 s = viewport_w s \<and> visible_y2 s - visible_y1 s = viewport_h s)"

definition exactSums :: "DOMService \<Rightarrow> bool" where
  "exactSums s =
     (\<bar>scroll_x s + viewport_w s\<bar> \<le> 2 ^ 53 \<and> \<bar>scroll_y s + viewport_h s\<bar> \<le> 2 ^ 53)"

text \<open>
  The claim's words about a key: some event of the sequence is a keydown for \<open>k\<close>, and no
  later event is a keyup for \<open>k\<close> or a blur of the window.
\<close>

definition keydownNotReleased :: "int \<Rightarrow> event list \<Rightarrow> bool" where
  "keydownNotReleased k evs =
     (\<exists>i \<in> {..<length evs}. evs ! i = KeyDown k \<and>
        (\<forall>j \<in> {i + 1..<length evs}. evs ! j \<noteq> KeyUp k \<and> evs ! j \<noteq> WindowBlur))"

definition aBrowser :: Browser where
  "aBrowser = \<lparr>docElement_clientWidth = 1280, docElement_clientHeight = 720,
     window_innerWidth = 1295, window_innerHeight = 720,
     window_pageXOffset = 0, window_pageYOffset = 0,
     docElement_scrollLeft = 0, docElement_scrollTop = 300,
     body_scrollLeft = 0, body_scrollTop = 0\<rparr>"

text \<open>A browser scrolled as far to the right as \<open>2 ^ 53\<close> pixels.\<close>

definition aFarBrowser :: Browser where
  "aFarBrowser = \<lparr>docElement_clientWidth = 1280, docElement_clientHeight = 720,
     window_innerWidth = 1295, window_innerHeight = 720,
     window_pageXOffset = 9007199254740992, window_pageYOffset = 0,
     docElement_scrollLeft = 0, docElement_scrollTop = 300,
     body_scrollLeft = 0, body_scrollTop = 0\<rparr>"

definition someData :: "(string \<times> jsval) list" where
  "someData =
     [(''name'', JString ''Ann''), (''age'', JNumber 41), (''admin'', JBoolean True),
      (''hidden'', JBoolean False), (''photo'', JFile ''a.png''), (''note'', JNull),
      (''nick'', JUndefined), (''tags'', JArray [JString ''x'', JNumber 2]),
      (''address'', JObject [(''city'', JString ''Oslo''), (''zip'', JNumber 150)])]"

text \<open>An input with a symbol among the properties of a nested object.\<close>

definition symbolData :: "(string \<times> jsval) list" where
  "symbolData =
     [(''a'', JString ''first''),
      (''o'', JObject [(''k'', JSymbol ''id''), (''j'', JNumber 1)])]"

text \<open>An attribute of the node of the panel, and a side recorded in \<^verbatim>\<open>this.overflowing\<close>.\<close>

definition nodeAttribute :: "World \<Rightarrow> string \<Rightarrow> string option" where
  "nodeAttribute w name = getAttribute (doc w) (node w) name"

definition overflowingSide :: "World \<Rightarrow> string \<Rightarrow> int option" where
  "overflowingSide w side = (case overflowing w of None \<Rightarrow> None | Some ov \<Rightarrow> map_of ov side)"

text \<open>
  One of the four blocks of \<^verbatim>\<open>setOverflowingAttributes\<close>, with the names it writes as
  parameters: the proofs below take the method apart into its blocks.
\<close>

definition overflowBlock :: "int \<Rightarrow> string \<Rightarrow> string \<Rightarrow> bool \<Rightarrow> string \<Rightarrow> string \<Rightarrow> World \<Rightarrow> World" where
  "overflowBlock v side marker flips direction towards w =
     (if v < 0
      then (let a = onNode (\<lambda>n. setAttribute n marker []) (recordOverflowing side v w)
            in if flips then onNode (\<lambda>n. setAttribute n direction towards) a else a)
      else w)"

text \<open>
  The invariant of the private field \<^verbatim>\<open>_originalAttributes\<close>: it is \<^verbatim>\<open>undefined\<close> or holds
  the one key \<^verbatim>\<open>style\<close>, as \<^verbatim>\<open>dismount\<close> writes it.
\<close>

definition savedOnlyStyle :: "World \<Rightarrow> bool" where
  "savedOnlyStyle w =
     (case originalAttributes w of None \<Rightarrow> True | Some saved \<Rightarrow> map fst saved = [''style''])"



text \<open>
  The invariant of the bound listeners: whatever is bound to pointerup is a dismissal
  handler. And the listener the timer of \<^verbatim>\<open>open\<close> binds in a world \<open>v\<close>.
\<close>

definition pointerupOnlyDismisses :: "World \<Rightarrow> bool" where
  "pointerupOnlyDismisses w =
     list_all (\<lambda>l. listenerType l \<noteq> ''pointerup'' \<or> listenerHandler l = DismissOnPointerUp) (boundListeners w)"

definition dismissal :: "World \<Rightarrow> Listener" where
  "dismissal v =
     \<lparr>listenerId = nextListenerId v, listenerTarget = TargetElement (documentElement (doc v)),
      listenerType = ''pointerup'', listenerHandler = DismissOnPointerUp, useCapture = False\<rparr>"

text \<open>
  A page: \<open>html\<close> (0) holds \<open>body\<close> (1), which holds a container (2) with the node of the
  panel (3) and a sibling after it (5); the node holds a button (4). A second container
  (6) with a node (7) in it is not attached to the page.
\<close>

definition aDocument :: Document where
  "aDocument =
     \<lparr>nodes = [0, 1, 2, 3, 4, 5, 6, 7],
      parentOf = (\<lambda>x. None)(1 := Some 0, 2 := Some 1, 3 := Some 2, 4 := Some 3, 5 := Some 2, 7 := Some 6),
      childrenOf = (\<lambda>x. [])(0 := [1], 1 := [2], 2 := [3, 5], 3 := [4], 6 := [7]),
      attributesOf = (\<lambda>x. [])(3 := [(''class'', ''menu''), (''style'', ''color: red;'')]),
      documentElement = 0,
      body = 1\<rparr>"

definition aLayout :: Layout where
  "aLayout =
     \<lparr>boundingClientRect_left = - 20, boundingClientRect_top = 700,
      offsetWidth = 300, offsetHeight = 100,
      documentElement_scrollLeft = 0, documentElement_scrollTop = 300,
      computed_marginLeft = 4, computed_marginTop = 4\<rparr>"

definition anotherLayout :: Layout where
  "anotherLayout =
     \<lparr>boundingClientRect_left = 1200, boundingClientRect_top = - 30,
      offsetWidth = 300, offsetHeight = 100,
      documentElement_scrollLeft = 0, documentElement_scrollTop = 300,
      computed_marginLeft = 4, computed_marginTop = 4\<rparr>"

definition aPanel :: World where
  "aPanel = newPanel aDocument aLayout (constructor aBrowser) 3"


section \<open>Properties of the DOM service\<close>

lemmas handler_defs = onDocumentKeyDown_def onDocumentKeyUp_def onDocumentPointerMove_def
  onDocumentPointerDown_def onDocumentPointerUp_def onDocumentScroll_def onWindowResize_def
  onWindowBlur_def onIdleInterval_def refreshViewport_def refreshScroll_def refreshVisible_def

lemmas run_defs = run_def constructor_def handler_defs aBrowser_def initialFields_def js_or_def Let_def

subsection \<open>The pointer counter\<close>

lemma handle_pointer_nonneg: "0 \<le> isPointerPressed s \<Longrightarrow> 0 \<le> isPointerPressed (handle s e)"
  by (cases e) (simp_all add: handler_defs Let_def)

lemma foldl_pointer_nonneg: "0 \<le> isPointerPressed s \<Longrightarrow> 0 \<le> isPointerPressed (foldl handle s evs)"
  by (induction evs arbitrary: s) (simp_all add: handle_pointer_nonneg)

lemma constructor_pointer: "isPointerPressed (constructor b) = 0"
  by (simp add: constructor_def handler_defs Let_def initialFields_def)

lemma run_pointer_nonneg: "0 \<le> isPointerPressed (run b evs)"
  unfolding run_def by (rule foldl_pointer_nonneg) (simp add: constructor_pointer)

text \<open>
  C9. From the state the constructor leaves, after any sequence of events, the counter
  \<^verbatim>\<open>isPointerPressed\<close> is not negative, and right after a pointerup it is 0.
\<close>

theorem pointer_counter_nonneg_and_reset:
  "0 \<le> isPointerPressed (run b evs) \<and> isPointerPressed (run b (evs @ [PointerUp])) = 0"
  using run_pointer_nonneg[of b evs] by (simp add: run_def onDocumentPointerUp_def)

theorem pointer_counter_witness:
  "isPointerPressed (run aBrowser [PointerDown, PointerDown]) = 2 \<and>
   isPointerPressed (run aBrowser ([PointerDown, PointerDown] @ [PointerUp])) = 0"
  using pointer_counter_nonneg_and_reset[of aBrowser "[PointerDown, PointerDown]"]
  by (simp add: run_defs)

subsection \<open>The sum of two numbers\<close>

lemma bitLength_le: "m < 2 ^ k \<Longrightarrow> bitLength m \<le> k"
proof (induction k arbitrary: m)
  case 0
  then show ?case by (simp add: bitLength.simps)
next
  case (Suc k)
  have "m div 2 < 2 ^ k" using Suc.prems by simp
  from Suc.IH[OF this] show ?case by (subst bitLength.simps) simp
qed

lemma roundToDouble_small:
  assumes "\<bar>i\<bar> < 2 ^ 53"
  shows "roundToDouble i = i"
proof -
  have "bitLength \<bar>i\<bar> - 53 = 0" using bitLength_le[OF assms] by simp
  then have "roundToDouble i = sgn i * \<bar>i\<bar>"
    by (simp add: roundToDouble_def Let_def)
  then show ?thesis by (simp add: mult_sgn_abs)
qed

lemma roundToDouble_limit:
  "roundToDouble (2 ^ 53) = 2 ^ 53" "roundToDouble (- (2 ^ 53)) = - (2 ^ 53)"
  by code_simp+

lemma roundToDouble_exact:
  assumes "\<bar>i\<bar> \<le> 2 ^ 53"
  shows "roundToDouble i = i"
proof -
  consider "\<bar>i\<bar> < 2 ^ 53" | "i = 2 ^ 53" | "i = - (2 ^ 53)" using assms by linarith
  then show ?thesis
    by cases (simp_all only: roundToDouble_small roundToDouble_limit)
qed

lemma js_add_exact: "\<bar>a + b\<bar> \<le> 2 ^ 53 \<Longrightarrow> js_add a b = a + b"
  by (simp add: js_add_def roundToDouble_exact)

subsection \<open>The visible rectangle\<close>

lemma refreshVisible_derived: "visibleDerived (refreshVisible s)"
  by (simp add: visibleDerived_def refreshVisible_def Let_def)

lemma handle_derived: "visibleDerived s \<Longrightarrow> visibleDerived (handle s e)"
  by (cases e) (simp_all add: visibleDerived_def handler_defs Let_def)

lemma foldl_derived: "visibleDerived s \<Longrightarrow> visibleDerived (foldl handle s evs)"
  by (induction evs arbitrary: s) (simp_all add: handle_derived)

lemma run_derived: "visibleDerived (run b evs)"
proof -
  have "visibleDerived (constructor b)"
    by (simp add: constructor_def refreshScroll_def refreshVisible_derived Let_def)
  then show ?thesis unfolding run_def by (rule foldl_derived)
qed

lemma visibleSides_exact: "visibleDerived s \<Longrightarrow> exactSums s \<Longrightarrow> visibleSides s"
  by (simp add: visibleDerived_def exactSums_def visibleSides_def js_add_exact)

text \<open>
  C10, with the sums as the code computes them. After the constructor, after
  \<^verbatim>\<open>refreshViewport\<close> and \<^verbatim>\<open>refreshScroll\<close> from any state, and in every state the service
  reaches by its handlers, \<^verbatim>\<open>visible.x1\<close> is \<^verbatim>\<open>scroll.x\<close>, \<^verbatim>\<open>visible.y1\<close> is \<^verbatim>\<open>scroll.y\<close>,
  \<^verbatim>\<open>visible.x2\<close> is the sum of doubles \<^verbatim>\<open>scroll.x + viewport.w\<close> and \<^verbatim>\<open>visible.y2\<close> the sum of
  doubles \<^verbatim>\<open>scroll.y + viewport.h\<close>. Where these sums stay within \<open>2 ^ 53\<close> in magnitude
  they are exact, and then \<^verbatim>\<open>visible.x2 - visible.x1\<close> is \<^verbatim>\<open>viewport.w\<close> and
  \<^verbatim>\<open>visible.y2 - visible.y1\<close> is \<^verbatim>\<open>viewport.h\<close>.
\<close>

theorem visible_rectangle_derived:
  "visibleDerived (constructor b) \<and> visibleDerived (refreshViewport b s) \<and>
   visibleDerived (refreshScroll b s) \<and> visibleDerived (run b evs) \<and>
   (exactSums (constructor b) \<longrightarrow> visibleSides (constructor b)) \<and>
   (exactSums (refreshViewport b s) \<longrightarrow> visibleSides (refreshViewport b s)) \<and>
   (exactSums (refreshScroll b s) \<longrightarrow> visibleSides (refreshScroll b s)) \<and>
   (exactSums (run b evs) \<longrightarrow> visibleSides (run b evs))"
proof -
  have c: "visibleDerived (constructor b)"
    using run_derived[of b "[]"] by (simp add: run_def)
  have v: "visibleDerived (refreshViewport b s)"
    by (simp add: refreshViewport_def refreshVisible_derived Let_def)
  have r: "visibleDerived (refreshScroll b s)"
    by (simp add: refreshScroll_def refreshVisible_derived Let_def)
  show ?thesis
    using c v r run_derived[of b evs] by (simp add: visibleSides_exact)
qed

theorem visible_rectangle_witness:
  "exactSums (run aBrowser [Resize aBrowser, PointerDown]) \<and>
   visibleSides (run aBrowser [Resize aBrowser, PointerDown]) \<and>
   visible_y1 (run aBrowser [Resize aBrowser, PointerDown]) = 300 \<and>
   visible_y2 (run aBrowser [Resize aBrowser, PointerDown]) = 1020 \<and>
   visible_x1 (run aBrowser [Resize aBrowser, PointerDown]) = 0 \<and>
   visible_x2 (run aBrowser [Resize aBrowser, PointerDown]) = 1295"
proof -
  have e: "exactSums (run aBrowser [Resize aBrowser, PointerDown])"
    by (simp add: exactSums_def run_defs js_add_exact)
  show ?thesis
    using e visible_rectangle_derived[of aBrowser initialFields "[Resize aBrowser, PointerDown]"]
    by (simp add: run_defs js_add_exact)
qed

text \<open>
  C10 as stated fails: the claim takes the sums to be exact. With the page scrolled to
  \<open>2 ^ 53\<close> and a viewport 1295 wide, the sum is not a double, \<^verbatim>\<open>visible.x2\<close> is the double
  next to it, and \<^verbatim>\<open>visible.x2 - visible.x1\<close> is 1296, not \<^verbatim>\<open>viewport.w\<close>.
\<close>

theorem visible_rectangle_rounds:
  "scroll_x (constructor aFarBrowser) = 9007199254740992 \<and>
   viewport_w (constructor aFarBrowser) = 1295 \<and>
   visible_x1 (constructor aFarBrowser) = 9007199254740992 \<and>
   visible_x2 (constructor aFarBrowser) = 9007199254742288 \<and>
   visible_x2 (constructor aFarBrowser) - visible_x1 (constructor aFarBrowser) = 1296 \<and>
   \<not> visibleSides (constructor aFarBrowser)"
  by code_simp

subsection \<open>The pressed keys\<close>

lemma keydownNotReleased_snoc:
  "keydownNotReleased k (evs @ [e]) \<longleftrightarrow>
     e = KeyDown k \<or> (keydownNotReleased k evs \<and> e \<noteq> KeyUp k \<and> e \<noteq> WindowBlur)"
proof
  assume "keydownNotReleased k (evs @ [e])"
  then obtain i where i: "i < Suc (length evs)" "(evs @ [e]) ! i = KeyDown k"
    and later: "\<And>j. i < j \<Longrightarrow> j < Suc (length evs) \<Longrightarrow>
                  (evs @ [e]) ! j \<noteq> KeyUp k \<and> (evs @ [e]) ! j \<noteq> WindowBlur"
    by (auto simp: keydownNotReleased_def)
  show "e = KeyDown k \<or> (keydownNotReleased k evs \<and> e \<noteq> KeyUp k \<and> e \<noteq> WindowBlur)"
  proof (cases "i = length evs")
    case True
    with i show ?thesis by simp
  next
    case False
    with i have lt: "i < length evs" by simp
    with i have "evs ! i = KeyDown k" by (simp add: nth_append)
    moreover have "evs ! j \<noteq> KeyUp k \<and> evs ! j \<noteq> WindowBlur" if "i < j" "j < length evs" for j
      using later[of j] that by (simp add: nth_append)
    moreover have "e \<noteq> KeyUp k \<and> e \<noteq> WindowBlur"
      using later[of "length evs"] lt by simp
    ultimately show ?thesis
      using lt by (auto simp: keydownNotReleased_def)
  qed
next
  assume "e = KeyDown k \<or> (keydownNotReleased k evs \<and> e \<noteq> KeyUp k \<and> e \<noteq> WindowBlur)"
  then show "keydownNotReleased k (evs @ [e])"
  proof
    assume "e = KeyDown k"
    then show ?thesis
      unfolding keydownNotReleased_def by (intro bexI[of _ "length evs"]) simp_all
  next
    assume r: "keydownNotReleased k evs \<and> e \<noteq> KeyUp k \<and> e \<noteq> WindowBlur"
    then obtain i where i: "i < length evs" "evs ! i = KeyDown k"
      and later: "\<And>j. i < j \<Longrightarrow> j < length evs \<Longrightarrow> evs ! j \<noteq> KeyUp k \<and> evs ! j \<noteq> WindowBlur"
      by (auto simp: keydownNotReleased_def)
    have "(evs @ [e]) ! j \<noteq> KeyUp k \<and> (evs @ [e]) ! j \<noteq> WindowBlur"
      if "i < j" "j < Suc (length evs)" for j
      using later[of j] that r by (cases "j = length evs") (simp_all add: nth_append)
    with i show ?thesis
      unfolding keydownNotReleased_def by (intro bexI[of _ i]) (simp_all add: nth_append)
  qed
qed

lemma pressed_handle:
  "k \<in> pressedKeys (handle s e) \<longleftrightarrow>
     e = KeyDown k \<or> (k \<in> pressedKeys s \<and> e \<noteq> KeyUp k \<and> e \<noteq> WindowBlur)"
  by (cases e) (auto simp: handler_defs Let_def)

lemma pressed_foldl:
  "k \<in> pressedKeys (foldl handle s evs) \<longleftrightarrow>
     keydownNotReleased k evs \<or>
     (k \<in> pressedKeys s \<and> KeyUp k \<notin> set evs \<and> WindowBlur \<notin> set evs)"
proof (induction evs rule: rev_induct)
  case Nil
  show ?case by (simp add: keydownNotReleased_def)
next
  case (snoc e evs)
  show ?case
    unfolding foldl_append foldl.simps pressed_handle snoc.IH keydownNotReleased_snoc
    by auto
qed

lemma constructor_keys: "pressedKeys (constructor b) = {}"
  by (simp add: constructor_def handler_defs Let_def initialFields_def)

text \<open>
  C5. After any sequence of events, \<^verbatim>\<open>isKeyPressed(k)\<close> is true exactly when a keydown for
  \<open>k\<close> was observed and no keyup for \<open>k\<close> and no blur of the window came after it.
\<close>

theorem pressed_keys_reflect_events:
  "isKeyPressed (run b evs) k \<longleftrightarrow> keydownNotReleased k evs"
  by (simp add: isKeyPressed_def run_def pressed_foldl constructor_keys)

theorem pressed_keys_witness:
  "isKeyPressed (run aBrowser [KeyDown 65, KeyUp 65, KeyDown 66, WindowBlur, KeyDown 67, PointerUp]) 67 \<and>
   \<not> isKeyPressed (run aBrowser [KeyDown 65, KeyUp 65, KeyDown 66, WindowBlur, KeyDown 67, PointerUp]) 66 \<and>
   \<not> isKeyPressed (run aBrowser [KeyDown 65, KeyUp 65, KeyDown 66, WindowBlur, KeyDown 67, PointerUp]) 65"
proof -
  let ?evs = "[KeyDown 65, KeyUp 65, KeyDown 66, WindowBlur, KeyDown 67, PointerUp]"
  have "keydownNotReleased 67 ?evs" "\<not> keydownNotReleased 66 ?evs" "\<not> keydownNotReleased 65 ?evs"
    by code_simp+
  then show ?thesis
    by (simp only: pressed_keys_reflect_events simp_thms)
qed

subsection \<open>Form data\<close>

lemma forEach_append_map:
  "list_all (\<lambda>x. convertible (g x)) xs \<Longrightarrow>
   forEach (\<lambda>fd x. fd_append fd (f x) (g x)) fd xs = Inr (fd @ map (\<lambda>x. (f x, g x)) xs)"
  by (induction xs arbitrary: fd) (simp_all add: fd_append_def)

lemma forEach_concat:
  "(\<And>fd x. x \<in> set xs \<Longrightarrow> step fd x = Inr (fd @ h x)) \<Longrightarrow>
   forEach step fd xs = Inr (fd @ concat (map h xs))"
  by (induction xs arbitrary: fd) simp_all

lemma get_property_distinct:
  "distinct (map fst ps) \<Longrightarrow> (key, v) \<in> set ps \<Longrightarrow> get_property ps key = v"
  by (simp add: get_property_def)

lemma convert_key_claimed:
  assumes "claimed_kind v" and "claimed_convertible key v" and "get_property data key = v"
  shows "convert_key data fd key = Inr (fd @ claimed_entries key v)"
proof (cases v)
  case (JArray xs)
  have "forEach (\<lambda>fd innerVal. fd_append fd (key @ ''[]'') innerVal) fd xs
          = Inr (fd @ map (\<lambda>x. (key @ ''[]'', x)) xs)"
    using assms(2) JArray forEach_append_map[of "\<lambda>x. x" xs "\<lambda>x. key @ ''[]''" fd]
    by (simp add: claimed_convertible_def list_all_iff)
  then show ?thesis
    using assms(3) JArray by (simp add: convert_key_def Let_def isFile_def)
next
  case (JObject ps)
  have d: "distinct (map fst ps)" using assms(1) JObject by simp
  have "forEach (\<lambda>fd innerKey. fd_append fd (key @ ''['' @ innerKey @ '']'') (get_property ps innerKey))
          fd (map fst ps)
          = Inr (fd @ map (\<lambda>innerKey. (key @ ''['' @ innerKey @ '']'', get_property ps innerKey)) (map fst ps))"
    using assms(2) JObject d
    by (intro forEach_append_map)
       (auto simp: claimed_convertible_def list_all_iff get_property_distinct)
  moreover have "map (\<lambda>innerKey. (key @ ''['' @ innerKey @ '']'', get_property ps innerKey)) (map fst ps)
                   = map (\<lambda>(innerKey, innerVal). (key @ ''['' @ innerKey @ '']'', innerVal)) ps"
    using d by (auto simp: get_property_distinct)
  ultimately show ?thesis
    using assms(3) JObject
    by (simp add: convert_key_def Let_def isFile_def isObject_def loosely_null_def for_in_keys_def)
qed (use assms in \<open>auto simp: convert_key_def Let_def isFile_def isObject_def loosely_null_def
        fd_append_def claimed_convertible_def for_in_keys_def\<close>)

text \<open>
  C8, for the values \<^verbatim>\<open>fd.append\<close> takes. For an input object whose values are of the kinds
  the claim names, and such that every value the claim has appended can be converted (no
  symbol among the elements of an array or the properties of a nested object, nor inside an
  array that is one of these, and no object with a \<^verbatim>\<open>toString\<close> of its own among them),
  \<^verbatim>\<open>convertToFormData\<close> returns, and the form data is the
  concatenation, in the order of the keys, of what the claim says each key adds: the value
  itself under the key for a string, a number, \<^verbatim>\<open>true\<close> or a file; the elements under
  \<^verbatim>\<open>key[]\<close> for an array; the properties under \<^verbatim>\<open>key[innerKey]\<close> for a nested object;
  nothing for \<^verbatim>\<open>false\<close>, \<^verbatim>\<open>null\<close> and \<^verbatim>\<open>undefined\<close>.
\<close>

theorem convertToFormData_entries:
  assumes "distinct (map fst data)"
    and "\<forall>(key, v) \<in> set data. claimed_kind v \<and> claimed_convertible key v"
  shows "convertToFormData data = Inr (concat (map (\<lambda>(key, v). claimed_entries key v) data))"
proof -
  have "convert_key data fd key = Inr (fd @ (\<lambda>(key, v). claimed_entries key v) (key, v))"
    if "(key, v) \<in> set data" for key v fd
  proof -
    have "claimed_kind v" "claimed_convertible key v" using that assms(2) by auto
    moreover have "get_property data key = v" using that assms(1) by (rule get_property_distinct[rotated])
    ultimately show ?thesis by (simp add: convert_key_claimed)
  qed
  then have "forEach (convert_key data) [] (map fst data)
               = Inr ([] @ concat (map (\<lambda>key. claimed_entries key (get_property data key)) (map fst data)))"
    using assms(1) by (intro forEach_concat) (auto simp: get_property_distinct)
  moreover have "map (\<lambda>key. claimed_entries key (get_property data key)) (map fst data)
                   = map (\<lambda>(key, v). claimed_entries key v) data"
    using assms(1) by (auto simp: get_property_distinct)
  ultimately show ?thesis
    by (simp only: convertToFormData_def for_in_keys_def append_Nil)
qed

theorem convertToFormData_witness:
  "distinct (map fst someData) \<and>
   convertToFormData someData =
     Inr [(''name'', JString ''Ann''), (''age'', JNumber 41), (''admin'', JBoolean True),
      (''photo'', JFile ''a.png''), (''tags[]'', JString ''x''), (''tags[]'', JNumber 2),
      (''address[city]'', JString ''Oslo''), (''address[zip]'', JNumber 150)]"
proof -
  have d: "distinct (map fst someData)" by (simp add: someData_def)
  have k: "\<forall>(key, v) \<in> set someData. claimed_kind v \<and> claimed_convertible key v"
    by (simp add: someData_def claimed_convertible_def)
  show ?thesis using d convertToFormData_entries[OF d k] by (simp add: someData_def)
qed

text \<open>
  C8 as stated fails: the claim has every property of a nested object appended. A symbol
  can not be appended: \<^verbatim>\<open>fd.append\<close> throws \<^verbatim>\<open>TypeError\<close>, and \<^verbatim>\<open>convertToFormData\<close> ends
  with it and returns no form data, whatever came before the symbol.
\<close>

theorem convertToFormData_throws_on_symbol:
  "distinct (map fst symbolData) \<and> list_all (\<lambda>(key, v). claimed_kind v) symbolData \<and>
   convertToFormData symbolData = Inl TypeError"
  by code_simp


subsection \<open>Query strings\<close>

text \<open>
  C7. The claim has a key that occurs once map to its decoded value. The code decodes the
  value twice (\<^verbatim>\<open>value = decodeURIComponent(pair[1])\<close>, then \<^verbatim>\<open>decodeURIComponent(value)\<close>),
  while it decodes the key once. On the query \<^verbatim>\<open>a=%2541\<close> the value \<^verbatim>\<open>%2541\<close> decodes to
  \<^verbatim>\<open>%41\<close>, and the returned object holds \<^verbatim>\<open>A\<close>.
\<close>

theorem parseQueryString_decodes_value_twice:
  "parseQueryString ''a=%2541'' = Inr [(''a'', QString ''A'')] \<and>
   decodeURIComponent ''%2541'' = Inr ''%41''"
  by code_simp

subsection \<open>The selected text element\<close>

text \<open>
  C6 as stated fails: with \<^verbatim>\<open>getSelection\<close> throwing and no \<^verbatim>\<open>document.selection\<close>, the
  \<^verbatim>\<open>catch\<close> block itself raises a \<^verbatim>\<open>TypeError\<close> that reaches the caller; and an anchor node
  without a parent makes the function return \<^verbatim>\<open>null\<close>, which is neither a node nor
  \<^verbatim>\<open>undefined\<close>.
\<close>

theorem getSelectedTextElement_can_throw_and_return_null:
  "getSelectedTextElement \<lparr>window_getSelection = GetSelectionThrows TypeError,
       document_selection = SelectionUndefined\<rparr> = Inl TypeError \<and>
   getSelectedTextElement \<lparr>window_getSelection = GetSelectionReturns (AnchorNode None),
       document_selection = SelectionUndefined\<rparr> = Inr RefNull"
  by (simp add: getSelectedTextElement_def legacySelection_def nullable_def)

text \<open>
  C6, amended. When \<^verbatim>\<open>window.getSelection()\<close> throws, the exception is caught inside the
  function and the outcome is that of \<^verbatim>\<open>document.selection.createRange().parentElement()\<close>
  alone: its node or \<^verbatim>\<open>null\<close> when it returns, its own exception when it raises one
  (a \<^verbatim>\<open>TypeError\<close> when \<^verbatim>\<open>document.selection\<close> is missing); the caught exception \<open>e\<close> never
  reaches the caller. When \<^verbatim>\<open>getSelection\<close> returns a selection the function returns
  \<^verbatim>\<open>undefined\<close> without an anchor node, and the parent of the anchor node (a node or
  \<^verbatim>\<open>null\<close>) with one.
\<close>

theorem getSelectedTextElement_fallback:
  "(window_getSelection h = GetSelectionThrows e \<longrightarrow>
      getSelectedTextElement h =
        (case document_selection h of
           ParentElementReturns n \<Rightarrow> Inr (nullable n)
         | SelectionUndefined \<Rightarrow> Inl TypeError
         | CreateRangeThrows e' \<Rightarrow> Inl e'
         | ParentElementThrows e' \<Rightarrow> Inl e')) \<and>
   (window_getSelection h = GetSelectionReturns a \<longrightarrow>
      getSelectedTextElement h =
        Inr (case a of AnchorNull \<Rightarrow> RefUndefined | AnchorNode parentNode \<Rightarrow> nullable parentNode))"
  by (simp add: getSelectedTextElement_def legacySelection_def
      split: anchorNode.splits documentSelection.splits)

theorem getSelectedTextElement_fallback_witness:
  "getSelectedTextElement \<lparr>window_getSelection = GetSelectionThrows URIError,
       document_selection = ParentElementReturns (Some 7)\<rparr> = Inr (RefNode 7) \<and>
   getSelectedTextElement \<lparr>window_getSelection = GetSelectionReturns (AnchorNode (Some 3)),
       document_selection = SelectionUndefined\<rparr> = Inr (RefNode 3)"
  using getSelectedTextElement_fallback[of "\<lparr>window_getSelection = GetSelectionThrows URIError,
       document_selection = ParentElementReturns (Some 7)\<rparr>" URIError AnchorNull]
    getSelectedTextElement_fallback[of "\<lparr>window_getSelection = GetSelectionReturns (AnchorNode (Some 3)),
       document_selection = SelectionUndefined\<rparr>" URIError "AnchorNode (Some 3)"]
  by (simp add: nullable_def)


section \<open>Properties of the panel\<close>

subsection \<open>Attributes and overflow\<close>

lemma getAttribute_setAttribute:
  "getAttribute (setAttribute n name v d) m name' =
     (if m = n \<and> name' = name then Some v else getAttribute d m name')"
  by (simp add: getAttribute_def setAttribute_def update_conv')

lemma getAttribute_removeAttribute:
  "getAttribute (removeAttribute n name d) m name' =
     (if m = n \<and> name' = name then None else getAttribute d m name')"
  by (simp add: getAttribute_def removeAttribute_def delete_conv')

lemma nodeAttribute_onNode_set:
  "nodeAttribute (onNode (\<lambda>n. setAttribute n name v) w) name' =
     (if name' = name then Some v else nodeAttribute w name')"
  by (simp add: nodeAttribute_def onNode_def getAttribute_setAttribute)

lemma nodeAttribute_onNode_remove:
  "nodeAttribute (onNode (\<lambda>n. removeAttribute n name) w) name' =
     (if name' = name then None else nodeAttribute w name')"
  by (simp add: nodeAttribute_def onNode_def getAttribute_removeAttribute)

lemma state_onNode [simp]: "state (onNode f w) = state w"
  and node_onNode [simp]: "node (onNode f w) = node w"
  and overflowing_onNode [simp]: "overflowing (onNode f w) = overflowing w"
  by (simp_all add: onNode_def)

lemma state_recordOverflowing [simp]: "state (recordOverflowing side v w) = state w"
  and node_recordOverflowing [simp]: "node (recordOverflowing side v w) = node w"
  and nodeAttribute_recordOverflowing [simp]:
    "nodeAttribute (recordOverflowing side v w) name = nodeAttribute w name"
  by (simp_all add: recordOverflowing_def nodeAttribute_def)

lemma overflowingSide_onNode [simp]: "overflowingSide (onNode f w) side = overflowingSide w side"
  by (simp add: overflowingSide_def)

lemma overflowingSide_recordOverflowing:
  "overflowingSide (recordOverflowing side v w) side' =
     (if side' = side then Some v else overflowingSide w side')"
  by (simp add: overflowingSide_def recordOverflowing_def update_conv' split: option.splits)

lemma state_overflowBlock [simp]: "state (overflowBlock v side marker flips direction towards w) = state w"
  and node_overflowBlock [simp]: "node (overflowBlock v side marker flips direction towards w) = node w"
  by (simp_all add: overflowBlock_def Let_def)

lemma nodeAttribute_overflowBlock:
  "nodeAttribute (overflowBlock v side marker flips direction towards w) name =
     (if v < 0 \<and> flips \<and> name = direction then Some towards
      else if v < 0 \<and> name = marker then Some []
      else nodeAttribute w name)"
  by (simp add: overflowBlock_def Let_def nodeAttribute_onNode_set)

lemma overflowingSide_overflowBlock:
  "overflowingSide (overflowBlock v side marker flips direction towards w) side' =
     (if v < 0 \<and> side' = side then Some v else overflowingSide w side')"
  by (simp add: overflowBlock_def Let_def overflowingSide_recordOverflowing)

lemma setOverflowingAttributes_blocks:
  "setOverflowingAttributes w =
     (let offset = getOffsetFromVisible (service w) (layout w) (Some (getWidth w)) (Some (getHeight w));
          w0 = (if overflowing w = None then w\<lparr>overflowing := Some []\<rparr> else w);
          w1 = overflowBlock (offset_left offset) ''left'' ''overflowing-left''
                 (offset_left offset < offset_right offset) ''x-direction'' ''right'' w0;
          w2 = overflowBlock (offset_right offset) ''right'' ''overflowing-right''
                 (offset_left offset > offset_right offset) ''x-direction'' ''left'' w1;
          w3 = overflowBlock (offset_bottom offset) ''bottom'' ''overflowing-bottom''
                 (offset_top offset > offset_bottom offset) ''y-direction'' ''top'' w2;
          w4 = overflowBlock (offset_top offset) ''top'' ''overflowing-top''
                 (offset_top offset < offset_bottom offset) ''y-direction'' ''bottom'' w3
      in onNode (\<lambda>n. setAttribute n ''overflowing-calculated'' ''true'') w4)"
  unfolding setOverflowingAttributes_def overflowBlock_def Let_def by (rule refl)

lemma state_setOverflowingAttributes [simp]: "state (setOverflowingAttributes w) = state w"
  and node_setOverflowingAttributes [simp]: "node (setOverflowingAttributes w) = node w"
  by (simp_all add: setOverflowingAttributes_blocks Let_def)

lemma nodeAttribute_init [simp]:
  "nodeAttribute (if overflowing w = None then w\<lparr>overflowing := Some []\<rparr> else w) name = nodeAttribute w name"
  by (simp add: nodeAttribute_def)

lemma overflowingSide_init:
  "overflowingSide (if overflowing w = None then w\<lparr>overflowing := Some []\<rparr> else w) side = overflowingSide w side"
  by (simp add: overflowingSide_def)

lemma open_setOverflowingAttributes [simp]:
  "nodeAttribute (setOverflowingAttributes w) ''open'' = nodeAttribute w ''open''"
  by (simp add: setOverflowingAttributes_blocks Let_def nodeAttribute_onNode_set nodeAttribute_overflowBlock)

text \<open>
  C2. With \<open>offset\<close> what \<^verbatim>\<open>getOffsetFromVisible\<close> computes for the node, after
  \<^verbatim>\<open>setOverflowingAttributes\<close>: \<^verbatim>\<open>x-direction\<close> is \<^verbatim>\<open>right\<close> when \<open>left < 0\<close> and
  \<open>left < right\<close>, and \<^verbatim>\<open>left\<close> when \<open>right < 0\<close> and \<open>left > right\<close>; \<^verbatim>\<open>y-direction\<close> is
  \<^verbatim>\<open>top\<close> when \<open>bottom < 0\<close> and \<open>top > bottom\<close>, and \<^verbatim>\<open>bottom\<close> when \<open>top < 0\<close> and
  \<open>top < bottom\<close>; each negative side has its \<^verbatim>\<open>overflowing-\<close> attribute and its entry in
  \<^verbatim>\<open>this.overflowing\<close>; and \<^verbatim>\<open>overflowing-calculated\<close> is \<^verbatim>\<open>true\<close>.
\<close>

theorem setOverflowingAttributes_flips:
  fixes w :: World
  defines "offset \<equiv> getOffsetFromVisible (service w) (layout w) (Some (getWidth w)) (Some (getHeight w))"
  defines "w' \<equiv> setOverflowingAttributes w"
  shows "(offset_left offset < 0 \<and> offset_left offset < offset_right offset \<longrightarrow>
            nodeAttribute w' ''x-direction'' = Some ''right'') \<and>
         (offset_right offset < 0 \<and> offset_left offset > offset_right offset \<longrightarrow>
            nodeAttribute w' ''x-direction'' = Some ''left'') \<and>
         (offset_bottom offset < 0 \<and> offset_top offset > offset_bottom offset \<longrightarrow>
            nodeAttribute w' ''y-direction'' = Some ''top'') \<and>
         (offset_top offset < 0 \<and> offset_top offset < offset_bottom offset \<longrightarrow>
            nodeAttribute w' ''y-direction'' = Some ''bottom'') \<and>
         (offset_left offset < 0 \<longrightarrow>
            nodeAttribute w' ''overflowing-left'' = Some [] \<and>
            overflowingSide w' ''left'' = Some (offset_left offset)) \<and>
         (offset_right offset < 0 \<longrightarrow>
            nodeAttribute w' ''overflowing-right'' = Some [] \<and>
            overflowingSide w' ''right'' = Some (offset_right offset)) \<and>
         (offset_top offset < 0 \<longrightarrow>
            nodeAttribute w' ''overflowing-top'' = Some [] \<and>
            overflowingSide w' ''top'' = Some (offset_top offset)) \<and>
         (offset_bottom offset < 0 \<longrightarrow>
            nodeAttribute w' ''overflowing-bottom'' = Some [] \<and>
            overflowingSide w' ''bottom'' = Some (offset_bottom offset)) \<and>
         nodeAttribute w' ''overflowing-calculated'' = Some ''true''"
  unfolding w'_def setOverflowingAttributes_blocks offset_def[symmetric] Let_def
  by (simp add: nodeAttribute_onNode_set nodeAttribute_overflowBlock overflowingSide_overflowBlock)

theorem setOverflowingAttributes_witness:
  "nodeAttribute (setOverflowingAttributes aPanel) ''x-direction'' = Some ''right'' \<and>
   nodeAttribute (setOverflowingAttributes aPanel) ''y-direction'' = Some ''top'' \<and>
   nodeAttribute (setOverflowingAttributes aPanel) ''overflowing-left'' = Some [] \<and>
   overflowingSide (setOverflowingAttributes aPanel) ''left'' = Some (- 20) \<and>
   nodeAttribute (setOverflowingAttributes aPanel) ''overflowing-bottom'' = Some [] \<and>
   overflowingSide (setOverflowingAttributes aPanel) ''bottom'' = Some (- 80) \<and>
   nodeAttribute (setOverflowingAttributes (aPanel\<lparr>layout := anotherLayout\<rparr>)) ''x-direction'' = Some ''left'' \<and>
   nodeAttribute (setOverflowingAttributes (aPanel\<lparr>layout := anotherLayout\<rparr>)) ''y-direction'' = Some ''bottom'' \<and>
   nodeAttribute (setOverflowingAttributes (aPanel\<lparr>layout := anotherLayout\<rparr>)) ''overflowing-right'' = Some [] \<and>
   overflowingSide (setOverflowingAttributes (aPanel\<lparr>layout := anotherLayout\<rparr>)) ''right'' = Some (- 205) \<and>
   nodeAttribute (setOverflowingAttributes (aPanel\<lparr>layout := anotherLayout\<rparr>)) ''overflowing-top'' = Some [] \<and>
   overflowingSide (setOverflowingAttributes (aPanel\<lparr>layout := anotherLayout\<rparr>)) ''top'' = Some (- 30) \<and>
   nodeAttribute (setOverflowingAttributes aPanel) ''overflowing-calculated'' = Some ''true''"
proof -
  have o1: "getOffsetFromVisible (service aPanel) (layout aPanel) (Some (getWidth aPanel)) (Some (getHeight aPanel))
     = \<lparr>offset_left = - 20, offset_top = 700, offset_right = 1015, offset_bottom = - 80\<rparr>"
    by (simp add: getOffsetFromVisible_def aPanel_def newPanel_def aLayout_def getWidth_def getHeight_def run_defs js_add_exact)
  have o2: "getOffsetFromVisible (service (aPanel\<lparr>layout := anotherLayout\<rparr>)) (layout (aPanel\<lparr>layout := anotherLayout\<rparr>))
       (Some (getWidth (aPanel\<lparr>layout := anotherLayout\<rparr>))) (Some (getHeight (aPanel\<lparr>layout := anotherLayout\<rparr>)))
     = \<lparr>offset_left = 1200, offset_top = - 30, offset_right = - 205, offset_bottom = 650\<rparr>"
    by (simp add: getOffsetFromVisible_def aPanel_def newPanel_def anotherLayout_def getWidth_def getHeight_def run_defs js_add_exact)
  show ?thesis
    using setOverflowingAttributes_flips[of aPanel] setOverflowingAttributes_flips[of "aPanel\<lparr>layout := anotherLayout\<rparr>"]
    unfolding o1 o2 by simp
qed



subsection \<open>What the parts of close and open leave alone\<close>

lemma attributesOf_detach [simp]: "attributesOf (detach n d) = attributesOf d"
  by (simp add: detach_def split: option.splits)

lemma attributesOf_insertBefore: "insertBefore p n r d = Inr d' \<Longrightarrow> attributesOf d' = attributesOf d"
  by (auto simp: insertBefore_def Let_def split: if_splits)

lemma attributesOf_removeChild: "removeChild p n d = Inr d' \<Longrightarrow> attributesOf d' = attributesOf d"
  by (auto simp: removeChild_def split: if_splits)

lemma nodeAttribute_doc_update:
  "attributesOf d' = attributesOf (doc w) \<Longrightarrow> nodeAttribute (w\<lparr>doc := d'\<rparr>) name = nodeAttribute w name"
  by (simp add: nodeAttribute_def getAttribute_def)

lemma unbind_frame [simp]:
  "doc (unbind l w) = doc w" "state (unbind l w) = state w" "node (unbind l w) = node w"
  "originalAttributes (unbind l w) = originalAttributes w" "avatar (unbind l w) = avatar w"
  "listeners (unbind l w) = listeners w" "timers (unbind l w) = timers w"
  "isDismounted (unbind l w) = isDismounted w" "hasOnClose (unbind l w) = hasOnClose w"
  "overflowing (unbind l w) = overflowing w"
  by (simp_all add: unbind_def)

lemma foldl_unbind_frame [simp]:
  "doc (foldl (\<lambda>w l. unbind l w) w ls) = doc w"
  "state (foldl (\<lambda>w l. unbind l w) w ls) = state w"
  "node (foldl (\<lambda>w l. unbind l w) w ls) = node w"
  "originalAttributes (foldl (\<lambda>w l. unbind l w) w ls) = originalAttributes w"
  "avatar (foldl (\<lambda>w l. unbind l w) w ls) = avatar w"
  "listeners (foldl (\<lambda>w l. unbind l w) w ls) = listeners w"
  "timers (foldl (\<lambda>w l. unbind l w) w ls) = timers w"
  "isDismounted (foldl (\<lambda>w l. unbind l w) w ls) = isDismounted w"
  by (induction ls arbitrary: w) simp_all

lemma removeListeners_frame [simp]:
  "doc (snd (removeListeners ns w)) = doc w"
  "state (snd (removeListeners ns w)) = state w"
  "node (snd (removeListeners ns w)) = node w"
  "originalAttributes (snd (removeListeners ns w)) = originalAttributes w"
  "timers (snd (removeListeners ns w)) = timers w"
  by (simp_all add: removeListeners_def split: option.splits)

lemma nodeAttribute_removeListeners [simp]:
  "nodeAttribute (snd (removeListeners ns w)) name = nodeAttribute w name"
  by (simp add: nodeAttribute_def)

lemma callHook_frame [simp]:
  "doc (callHook h w) = doc w" "state (callHook h w) = state w" "node (callHook h w) = node w"
  "originalAttributes (callHook h w) = originalAttributes w" "timers (callHook h w) = timers w"
  "postponeOverflowCalculating (callHook h w) = postponeOverflowCalculating w"
  by (simp_all add: callHook_def)

lemma nodeAttribute_callHook [simp]: "nodeAttribute (callHook h w) name = nodeAttribute w name"
  by (simp add: nodeAttribute_def)

lemma originalAttributes_onNode [simp]: "originalAttributes (onNode f w) = originalAttributes w"
  by (simp add: onNode_def)

lemma removeAttribute_keys_frame:
  "state (foldl (\<lambda>w key. onNode (\<lambda>n. removeAttribute n (f key)) w) w keys) = state w \<and>
   node (foldl (\<lambda>w key. onNode (\<lambda>n. removeAttribute n (f key)) w) w keys) = node w \<and>
   originalAttributes (foldl (\<lambda>w key. onNode (\<lambda>n. removeAttribute n (f key)) w) w keys)
     = originalAttributes w \<and>
   ((\<forall>key. f key \<noteq> name) \<longrightarrow>
    nodeAttribute (foldl (\<lambda>w key. onNode (\<lambda>n. removeAttribute n (f key)) w) w keys) name
     = nodeAttribute w name)"
  by (induction keys arbitrary: w) (auto simp: nodeAttribute_onNode_remove)

lemma removeOverflowingAttributes_frame [simp]:
  "state (removeOverflowingAttributes w) = state w"
  "node (removeOverflowingAttributes w) = node w"
  "originalAttributes (removeOverflowingAttributes w) = originalAttributes w"
  "nodeAttribute (removeOverflowingAttributes w) ''open'' = nodeAttribute w ''open''"
  using removeAttribute_keys_frame[where f = "\<lambda>key. ''overflowing-'' @ key" and name = "''open''"]
  by (simp_all add: removeOverflowingAttributes_def Let_def nodeAttribute_onNode_remove split: option.splits)

lemma restoreAttributes_frame [simp]:
  "state (restoreAttributes w) = state w" "node (restoreAttributes w) = node w"
  "originalAttributes (restoreAttributes w) = originalAttributes w"
  "avatar (restoreAttributes w) = avatar w"
proof -
  have "state (foldl (\<lambda>w k. case map_of saved k of
                     Some (Some v) \<Rightarrow> onNode (\<lambda>n. setAttribute n k v) w
                   | _ \<Rightarrow> onNode (\<lambda>n. removeAttribute n k) w) w ks) = state w \<and>
        node (foldl (\<lambda>w k. case map_of saved k of
                     Some (Some v) \<Rightarrow> onNode (\<lambda>n. setAttribute n k v) w
                   | _ \<Rightarrow> onNode (\<lambda>n. removeAttribute n k) w) w ks) = node w \<and>
        originalAttributes (foldl (\<lambda>w k. case map_of saved k of
                     Some (Some v) \<Rightarrow> onNode (\<lambda>n. setAttribute n k v) w
                   | _ \<Rightarrow> onNode (\<lambda>n. removeAttribute n k) w) w ks) = originalAttributes w \<and>
        avatar (foldl (\<lambda>w k. case map_of saved k of
                     Some (Some v) \<Rightarrow> onNode (\<lambda>n. setAttribute n k v) w
                   | _ \<Rightarrow> onNode (\<lambda>n. removeAttribute n k) w) w ks) = avatar w"
    for saved :: "(string \<times> string option) list" and ks w
    by (induction ks arbitrary: w) (simp_all add: onNode_def split: option.splits)
  then show "state (restoreAttributes w) = state w" "node (restoreAttributes w) = node w"
    "originalAttributes (restoreAttributes w) = originalAttributes w"
    "avatar (restoreAttributes w) = avatar w"
    by (simp_all add: restoreAttributes_def split: option.splits)
qed

lemma restoreAttributes_open:
  "savedOnlyStyle w \<Longrightarrow> nodeAttribute (restoreAttributes w) ''open'' = nodeAttribute w ''open''"
  by (cases "originalAttributes w")
     (auto simp: savedOnlyStyle_def restoreAttributes_def nodeAttribute_onNode_set
        nodeAttribute_onNode_remove split: option.splits)

lemma forget_frame [simp]:
  "doc (forget w) = doc w" "state (forget w) = state w" "node (forget w) = node w"
  "originalAttributes (forget w) = None"
  by (simp_all add: forget_def)

lemma removeListeners_result:
  "removeListeners ns w = (r, w') \<Longrightarrow>
     doc w' = doc w \<and> state w' = state w \<and> node w' = node w \<and>
     originalAttributes w' = originalAttributes w \<and> timers w' = timers w"
  using removeListeners_frame[of ns w] by simp

lemma attributesOf_placeNode: "placeNode w = Inr d \<Longrightarrow> attributesOf d = attributesOf (doc w)"
  by (auto simp: placeNode_def split: if_splits option.splits
      dest: attributesOf_insertBefore attributesOf_removeChild)

lemma attributesOf_removeAvatar: "removeAvatar w = Inr d \<Longrightarrow> attributesOf d = attributesOf (doc w)"
  by (auto simp: removeAvatar_def split: option.splits dest: attributesOf_removeChild)

text \<open>The world \<^verbatim>\<open>mount\<close> leaves, by the place where it stops.\<close>

lemma mount_cases:
  obtains (atPlace) e where "placeNode (restoreAttributes w) = Inl e"
      and "mount w = (Some e, restoreAttributes w)"
  | (atAvatar) d2 e where "placeNode (restoreAttributes w) = Inr d2"
      and "removeAvatar ((restoreAttributes w)\<lparr>doc := d2\<rparr>) = Inl e"
      and "mount w = (Some e, (restoreAttributes w)\<lparr>doc := d2\<rparr>)"
  | (atListeners) d2 d3 e where "placeNode (restoreAttributes w) = Inr d2"
      and "removeAvatar ((restoreAttributes w)\<lparr>doc := d2\<rparr>) = Inr d3"
      and "fst (removeListeners DISMOUNTING ((restoreAttributes w)\<lparr>doc := d3\<rparr>)) = Some e"
      and "mount w = (Some e, snd (removeListeners DISMOUNTING ((restoreAttributes w)\<lparr>doc := d3\<rparr>)))"
  | (completed) d2 d3 where "placeNode (restoreAttributes w) = Inr d2"
      and "removeAvatar ((restoreAttributes w)\<lparr>doc := d2\<rparr>) = Inr d3"
      and "fst (removeListeners DISMOUNTING ((restoreAttributes w)\<lparr>doc := d3\<rparr>)) = None"
      and "mount w = (None, (forget (snd (removeListeners DISMOUNTING
                               ((restoreAttributes w)\<lparr>doc := d3\<rparr>))))\<lparr>isDismounted := False\<rparr>)"
proof (cases "placeNode (restoreAttributes w)")
  case (Inl e)
  then show ?thesis using atPlace by (simp add: mount_def Let_def)
next
  case d2: (Inr d2)
  show ?thesis
  proof (cases "removeAvatar ((restoreAttributes w)\<lparr>doc := d2\<rparr>)")
    case (Inl e)
    then show ?thesis using d2 atAvatar by (simp add: mount_def Let_def)
  next
    case d3: (Inr d3)
    obtain r w4 where r: "removeListeners DISMOUNTING ((restoreAttributes w)\<lparr>doc := d3\<rparr>) = (r, w4)"
      by (cases "removeListeners DISMOUNTING ((restoreAttributes w)\<lparr>doc := d3\<rparr>)")
    show ?thesis
    proof (cases r)
      case None
      then show ?thesis using d2 d3 r completed[of d2 d3] by (simp add: mount_def Let_def)
    next
      case (Some e)
      then show ?thesis using d2 d3 r atListeners[of d2 d3 e] by (simp add: mount_def Let_def)
    qed
  qed
qed

lemma mount_frame:
  "state (snd (mount w)) = state w \<and> node (snd (mount w)) = node w"
  by (cases w rule: mount_cases) simp_all

lemma mount_open:
  assumes "savedOnlyStyle w"
  shows "nodeAttribute (snd (mount w)) ''open'' = nodeAttribute w ''open''"
proof -
  have "nodeAttribute ((restoreAttributes w)\<lparr>doc := d\<rparr>) ''open'' = nodeAttribute w ''open''"
    if "attributesOf d = attributesOf (doc (restoreAttributes w))" for d
    using that restoreAttributes_open[OF assms] by (simp add: nodeAttribute_def getAttribute_def)
  then show ?thesis
    by (cases w rule: mount_cases)
       (auto simp: restoreAttributes_open[OF assms] nodeAttribute_def getAttribute_def
          dest!: attributesOf_placeNode attributesOf_removeAvatar)
qed

lemma nodeAttribute_timers_update [simp]:
  "nodeAttribute (w\<lparr>timers := ts\<rparr>) name = nodeAttribute w name"
  by (simp add: nodeAttribute_def)

lemma resumeOpen_frame [simp]:
  "state (resumeOpen w) = state w" "node (resumeOpen w) = node w"
  "nodeAttribute (resumeOpen w) ''open'' = nodeAttribute w ''open''"
  by (simp_all add: resumeOpen_def Let_def)

lemma addListener_frame [simp]:
  "doc (addListener ns t ty h c w) = doc w" "state (addListener ns t ty h c w) = state w"
  "node (addListener ns t ty h c w) = node w"
  "originalAttributes (addListener ns t ty h c w) = originalAttributes w"
  "timers (addListener ns t ty h c w) = timers w"
  "avatar (addListener ns t ty h c w) = avatar w"
  by (simp_all add: addListener_def listen_def Let_def split: option.splits)

lemma styleForDismount_frame [simp]:
  "state (styleForDismount a l t w) = state w" "node (styleForDismount a l t w) = node w"
  "originalAttributes (styleForDismount a l t w) = originalAttributes w"
  "avatar (styleForDismount a l t w) = avatar w"
  by (simp_all add: styleForDismount_def Let_def onNode_def onDoc_def)

lemma relocate_frame [simp]:
  "state (snd (relocate a w)) = state w" "node (snd (relocate a w)) = node w"
  "originalAttributes (snd (relocate a w)) = originalAttributes w"
  "avatar (snd (relocate a w)) = avatar w"
  by (simp_all add: relocate_def Let_def split: option.splits sum.splits)

lemma dismount_frame:
  "state (snd (dismount ps w)) = state w \<and> node (snd (dismount ps w)) = node w"
  by (simp add: dismount_def Let_def split: option.splits prod.splits)

text \<open>
  C1. A call of \<^verbatim>\<open>open\<close> on a closed panel that returns leaves the panel \<open>Open\<close> with
  the attribute \<^verbatim>\<open>open\<close> set to \<^verbatim>\<open>true\<close> on its node, and the part of \<^verbatim>\<open>open\<close> that a
  postponed overflow calculation defers changes neither. \<^verbatim>\<open>close\<close> on an open panel
  leaves it \<open>Closed\<close> without the attribute, whether the call returns or throws.
  \<^verbatim>\<open>open\<close> on an open panel and \<^verbatim>\<open>close\<close> on a closed one return the state they got.
  The hypothesis \<open>savedOnlyStyle\<close> is the invariant of the lemmas that follow.
\<close>

theorem open_and_close:
  "(state w = Closed \<and> openPanel ps w = (None, w1) \<longrightarrow>
      state w1 = Open \<and> nodeAttribute w1 ''open'' = Some ''true'') \<and>
   state (runTimer ResumeOpen w) = state w \<and>
   nodeAttribute (runTimer ResumeOpen w) ''open'' = nodeAttribute w ''open'' \<and>
   (state w = Open \<and> savedOnlyStyle w \<longrightarrow>
      state (snd (close w)) = Closed \<and> nodeAttribute (snd (close w)) ''open'' = None) \<and>
   (state w = Open \<longrightarrow> openPanel ps w = (None, w)) \<and>
   (state w = Closed \<longrightarrow> close w = (None, w))"
proof (intro conjI impI)
  assume a: "state w = Closed \<and> openPanel ps w = (None, w1)"
  define w0 where "w0 = (if isDismountingNeeded w
               then dismount (case ps of None \<Rightarrow> noParams | Some ps \<Rightarrow> ps) w
               else (None, w))"
  define w3 where "w3 = onNode (\<lambda>n. setAttribute n ''open'' ''true'') ((snd w0)\<lparr>state := Open\<rparr>)"
  define w4 where "w4 = (if hasOnOpen w3 then callHook ''onOpen'' w3 else w3)"
  have w4: "state w4 = Open" "nodeAttribute w4 ''open'' = Some ''true''"
    by (simp_all add: w4_def w3_def nodeAttribute_onNode_set)
  from a have "w1 = (if postponeOverflowCalculating w4 then w4\<lparr>timers := timers w4 @ [ResumeOpen]\<rparr>
                     else resumeOpen w4)"
    by (cases w0) (auto simp: openPanel_def isOpen_def Let_def w0_def w3_def w4_def split: option.splits if_splits)
  with w4 show "state w1 = Open" "nodeAttribute w1 ''open'' = Some ''true''"
    by auto
next
  show "state (runTimer ResumeOpen w) = state w"
    "nodeAttribute (runTimer ResumeOpen w) ''open'' = nodeAttribute w ''open''"
    by simp_all
next
  assume a: "state w = Open \<and> savedOnlyStyle w"
  define w2 where "w2 = onNode (\<lambda>n. removeAttribute n ''open'') (w\<lparr>state := Closed\<rparr>)"
  have w2: "state w2 = Closed" "nodeAttribute w2 ''open'' = None" "savedOnlyStyle w2"
    using a by (simp_all add: w2_def nodeAttribute_onNode_remove savedOnlyStyle_def)
  define m where "m = (if isDismounted w2 then mount w2 else (None, w2))"
  have m: "state (snd m) = Closed" "nodeAttribute (snd m) ''open'' = None"
    using w2 mount_frame[of w2] mount_open[of w2] by (simp_all add: m_def)
  have c: "close w = (case m of (Some e, w3) \<Rightarrow> (Some e, w3)
            | (None, w3) \<Rightarrow>
                (let w4 = removeOverflowingAttributes w3;
                     w5 = (if hasOnClose w4 then callHook ''onClose'' w4 else w4)
                 in removeListeners OPENING w5))"
    using a by (simp add: close_def isClosed_def Let_def w2_def m_def)
  show "state (snd (close w)) = Closed" "nodeAttribute (snd (close w)) ''open'' = None"
    using m unfolding c by (cases m; cases "fst m"; simp add: Let_def)+
next
  assume "state w = Open"
  then show "openPanel ps w = (None, w)" by (simp add: openPanel_def isOpen_def)
next
  assume "state w = Closed"
  then show "close w = (None, w)" by (simp add: close_def isClosed_def)
qed


subsection \<open>The invariant of the saved attributes\<close>

lemma savedOnlyStyle_cong:
  "originalAttributes w' = originalAttributes w \<Longrightarrow> savedOnlyStyle w' = savedOnlyStyle w"
  by (simp add: savedOnlyStyle_def)

lemma savedOnlyStyle_None: "originalAttributes w = None \<Longrightarrow> savedOnlyStyle w"
  by (simp add: savedOnlyStyle_def)

lemma savedOnlyStyle_newPanel: "savedOnlyStyle (newPanel d l s n)"
  by (simp add: savedOnlyStyle_def newPanel_def)

lemma savedOnlyStyle_dismount: "savedOnlyStyle (snd (dismount ps w))"
  by (simp add: dismount_def Let_def savedOnlyStyle_def split: option.splits prod.splits)

lemma savedOnlyStyle_mount: "savedOnlyStyle w \<Longrightarrow> savedOnlyStyle (snd (mount w))"
  by (cases w rule: mount_cases) (simp_all add: savedOnlyStyle_def)

lemma savedOnlyStyle_close: "savedOnlyStyle w \<Longrightarrow> savedOnlyStyle (snd (close w))"
proof -
  assume a: "savedOnlyStyle w"
  define w2 where "w2 = onNode (\<lambda>n. removeAttribute n ''open'') (w\<lparr>state := Closed\<rparr>)"
  define m where "m = (if isDismounted w2 then mount w2 else (None, w2))"
  have "savedOnlyStyle w2" using a by (simp add: w2_def savedOnlyStyle_def)
  then have m: "savedOnlyStyle (snd m)" by (simp add: m_def savedOnlyStyle_mount)
  have "close w = (if isClosed w then (None, w) else (case m of (Some e, w3) \<Rightarrow> (Some e, w3)
            | (None, w3) \<Rightarrow>
                (let w4 = removeOverflowingAttributes w3;
                     w5 = (if hasOnClose w4 then callHook ''onClose'' w4 else w4)
                 in removeListeners OPENING w5)))"
    by (simp add: close_def Let_def w2_def m_def)
  then show ?thesis
    using a m by (cases m; cases "fst m") (simp_all add: Let_def savedOnlyStyle_def)
qed

lemma savedOnlyStyle_resumeOpen: "savedOnlyStyle (resumeOpen w) = savedOnlyStyle w"
  by (simp add: savedOnlyStyle_def resumeOpen_def setOverflowingAttributes_blocks overflowBlock_def
      recordOverflowing_def Let_def)

lemma savedOnlyStyle_openPanel: "savedOnlyStyle w \<Longrightarrow> savedOnlyStyle (snd (openPanel ps w))"
proof -
  assume a: "savedOnlyStyle w"
  define w0 where "w0 = (if isDismountingNeeded w
               then dismount (case ps of None \<Rightarrow> noParams | Some ps \<Rightarrow> ps) w
               else (None, w))"
  have w0: "savedOnlyStyle (snd w0)" using a by (simp add: w0_def savedOnlyStyle_dismount)
  show ?thesis
    using a w0 savedOnlyStyle_resumeOpen
    by (cases w0; cases "fst w0")
       (auto simp: openPanel_def Let_def w0_def[symmetric] savedOnlyStyle_def resumeOpen_def)
qed

lemma savedOnlyStyle_toggle: "savedOnlyStyle w \<Longrightarrow> savedOnlyStyle (snd (toggle w))"
  by (simp add: toggle_def savedOnlyStyle_close savedOnlyStyle_openPanel)

lemma savedOnlyStyle_runHandler: "savedOnlyStyle w \<Longrightarrow> savedOnlyStyle (runHandler e h w)"
  by (cases h) (simp_all add: Let_def onDocumentScroll_panel_def savedOnlyStyle_close)

lemma savedOnlyStyle_deliver: "savedOnlyStyle w \<Longrightarrow> savedOnlyStyle (deliver e ls w)"
  by (induction ls arbitrary: w) (simp_all add: savedOnlyStyle_runHandler)

lemma savedOnlyStyle_dispatch: "savedOnlyStyle w \<Longrightarrow> savedOnlyStyle (dispatch w e)"
proof (cases e)
  case TimerFires
  assume "savedOnlyStyle w"
  then show ?thesis
    using TimerFires savedOnlyStyle_resumeOpen[of "w\<lparr>timers := tl (timers w)\<rparr>"]
    by (cases "timers w"; cases "hd (timers w)") (auto simp: savedOnlyStyle_def)
qed (simp_all add: savedOnlyStyle_deliver)

lemma openPanel_returns: "\<not> isDismountingNeeded w \<Longrightarrow> fst (openPanel ps w) = None"
  by (simp add: openPanel_def Let_def)

theorem open_and_close_witness:
  "state aPanel = Closed \<and>
   state (snd (openPanel None aPanel)) = Open \<and>
   nodeAttribute (snd (openPanel None aPanel)) ''open'' = Some ''true'' \<and>
   state (snd (close (snd (openPanel None aPanel)))) = Closed \<and>
   nodeAttribute (snd (close (snd (openPanel None aPanel)))) ''open'' = None \<and>
   openPanel None (snd (openPanel None aPanel)) = (None, snd (openPanel None aPanel)) \<and>
   close aPanel = (None, aPanel)"
proof -
  let ?w1 = "snd (openPanel None aPanel)"
  have c: "state aPanel = Closed" by (simp add: aPanel_def newPanel_def)
  have "fst (openPanel None aPanel) = None"
    by (rule openPanel_returns) (simp add: aPanel_def newPanel_def)
  then have o: "openPanel None aPanel = (None, ?w1)" by (simp add: prod_eq_iff)
  have s: "savedOnlyStyle ?w1"
    by (intro savedOnlyStyle_openPanel) (simp add: aPanel_def savedOnlyStyle_newPanel)
  from open_and_close[of aPanel None ?w1] c o have 1: "state ?w1 = Open" "nodeAttribute ?w1 ''open'' = Some ''true''"
    by blast+
  from open_and_close[of ?w1 None ?w1] 1 s
  have 2: "state (snd (close ?w1)) = Closed" "nodeAttribute (snd (close ?w1)) ''open'' = None"
    "openPanel None ?w1 = (None, ?w1)"
    by blast+
  from open_and_close[of aPanel None ?w1] c have 3: "close aPanel = (None, aPanel)" by blast
  show ?thesis using c 1 2 3 by simp
qed



subsection \<open>Dismissal by pointerup\<close>

lemma ancestorWithin_refl [simp]: "ancestorWithin k par a a"
  by (cases k) simp_all

lemma contains_refl [simp]: "contains d a a"
  by (simp add: contains_def)

lemma state_close [simp]: "state (snd (close w)) = Closed"
proof (cases "state w")
  case Closed
  then show ?thesis by (simp add: close_def isClosed_def)
next
  case Open
  define w2 where "w2 = onNode (\<lambda>n. removeAttribute n ''open'') (w\<lparr>state := Closed\<rparr>)"
  define m where "m = (if isDismounted w2 then mount w2 else (None, w2))"
  have m: "state (snd m) = Closed"
    using mount_frame[of w2] by (simp add: m_def w2_def)
  have c: "close w = (case m of (Some e, w3) \<Rightarrow> (Some e, w3)
            | (None, w3) \<Rightarrow>
                (let w4 = removeOverflowingAttributes w3;
                     w5 = (if hasOnClose w4 then callHook ''onClose'' w4 else w4)
                 in removeListeners OPENING w5))"
    using Open by (simp add: close_def isClosed_def Let_def w2_def m_def)
  show ?thesis
    using m unfolding c by (cases m; cases "fst m"; simp add: Let_def)
qed

lemma close_closed: "state w = Closed \<Longrightarrow> close w = (None, w)"
  by (simp add: close_def isClosed_def)

lemma runHandler_closed: "state w = Closed \<Longrightarrow> runHandler e h w = w"
  by (cases h) (simp_all add: close_closed Let_def onDocumentScroll_panel_def)

lemma deliver_closed: "state w = Closed \<Longrightarrow> deliver e ls w = w"
  by (induction ls) (simp_all add: runHandler_closed)

lemma runHandler_outside:
  "\<not> contains (doc w) (node w) t \<Longrightarrow> runHandler (PointerUpAt t) h w = snd (close w)"
  by (cases h) (auto simp: Let_def onDocumentScroll_panel_def containsRef_def)

lemma deliver_outside:
  assumes "\<not> contains (doc w) (node w) t" and "ls \<noteq> []"
    and "listenerId (hd ls) \<in> listenerId ` set (boundListeners w)"
  shows "deliver (PointerUpAt t) ls w = snd (close w)"
  using assms by (cases ls) (simp_all add: runHandler_outside deliver_closed)

lemma deliver_inside:
  assumes "contains (doc w) (node w) t"
    and "list_all (\<lambda>l. listenerHandler l = DismissOnPointerUp) ls"
  shows "deliver (PointerUpAt t) ls w = w"
  using assms by (induction ls) (simp_all add: containsRef_def)


subsection \<open>Listeners through the methods\<close>

lemma onNode_listeners [simp]:
  "listeners (onNode f w) = listeners w" "boundListeners (onNode f w) = boundListeners w"
  "timers (onNode f w) = timers w" "nextListenerId (onNode f w) = nextListenerId w"
  "isDismounted (onNode f w) = isDismounted w" "hasOnClose (onNode f w) = hasOnClose w"
  "hasOnOpen (onNode f w) = hasOnOpen w"
  "postponeOverflowCalculating (onNode f w) = postponeOverflowCalculating w"
  by (simp_all add: onNode_def)

lemma onDoc_frame [simp]:
  "listeners (onDoc f w) = listeners w" "boundListeners (onDoc f w) = boundListeners w"
  "timers (onDoc f w) = timers w" "nextListenerId (onDoc f w) = nextListenerId w"
  "postponeOverflowCalculating (onDoc f w) = postponeOverflowCalculating w"
  by (simp_all add: onDoc_def)

lemma recordOverflowing_listeners [simp]:
  "listeners (recordOverflowing side v w) = listeners w"
  "boundListeners (recordOverflowing side v w) = boundListeners w"
  "timers (recordOverflowing side v w) = timers w"
  "nextListenerId (recordOverflowing side v w) = nextListenerId w"
  "isDismounted (recordOverflowing side v w) = isDismounted w"
  "postponeOverflowCalculating (recordOverflowing side v w) = postponeOverflowCalculating w"
  by (simp_all add: recordOverflowing_def)

lemma overflowBlock_listeners [simp]:
  "listeners (overflowBlock v side marker flips direction towards w) = listeners w"
  "boundListeners (overflowBlock v side marker flips direction towards w) = boundListeners w"
  "timers (overflowBlock v side marker flips direction towards w) = timers w"
  "nextListenerId (overflowBlock v side marker flips direction towards w) = nextListenerId w"
  "isDismounted (overflowBlock v side marker flips direction towards w) = isDismounted w"
  "postponeOverflowCalculating (overflowBlock v side marker flips direction towards w)
     = postponeOverflowCalculating w"
  by (simp_all add: overflowBlock_def Let_def)

lemma setOverflowingAttributes_listeners [simp]:
  "listeners (setOverflowingAttributes w) = listeners w"
  "boundListeners (setOverflowingAttributes w) = boundListeners w"
  "timers (setOverflowingAttributes w) = timers w"
  "nextListenerId (setOverflowingAttributes w) = nextListenerId w"
  "isDismounted (setOverflowingAttributes w) = isDismounted w"
  "postponeOverflowCalculating (setOverflowingAttributes w) = postponeOverflowCalculating w"
  by (simp_all add: setOverflowingAttributes_blocks Let_def)

lemma resumeOpen_listeners [simp]:
  "listeners (resumeOpen w) = listeners w" "boundListeners (resumeOpen w) = boundListeners w"
  "timers (resumeOpen w) = timers w @ [RegisterDismissal]"
  "nextListenerId (resumeOpen w) = nextListenerId w"
  "isDismounted (resumeOpen w) = isDismounted w"
  by (simp_all add: resumeOpen_def Let_def)

lemma removeAttribute_keys_listeners:
  "listeners (foldl (\<lambda>w key. onNode (\<lambda>n. removeAttribute n (f key)) w) w keys) = listeners w \<and>
   boundListeners (foldl (\<lambda>w key. onNode (\<lambda>n. removeAttribute n (f key)) w) w keys) = boundListeners w \<and>
   hasOnClose (foldl (\<lambda>w key. onNode (\<lambda>n. removeAttribute n (f key)) w) w keys) = hasOnClose w"
  by (induction keys arbitrary: w) simp_all

lemma removeOverflowingAttributes_listeners [simp]:
  "listeners (removeOverflowingAttributes w) = listeners w"
  "boundListeners (removeOverflowingAttributes w) = boundListeners w"
  "hasOnClose (removeOverflowingAttributes w) = hasOnClose w"
  by (simp_all add: removeOverflowingAttributes_def Let_def removeAttribute_keys_listeners
      split: option.splits)

lemma callHook_listeners [simp]:
  "listeners (callHook h w) = listeners w" "boundListeners (callHook h w) = boundListeners w"
  "nextListenerId (callHook h w) = nextListenerId w"
  by (simp_all add: callHook_def)

lemma restoreAttributes_listeners [simp]:
  "listeners (restoreAttributes w) = listeners w"
  "boundListeners (restoreAttributes w) = boundListeners w"
proof -
  have "listeners (foldl (\<lambda>w k. case map_of saved k of
                     Some (Some v) \<Rightarrow> onNode (\<lambda>n. setAttribute n k v) w
                   | _ \<Rightarrow> onNode (\<lambda>n. removeAttribute n k) w) w ks) = listeners w \<and>
        boundListeners (foldl (\<lambda>w k. case map_of saved k of
                     Some (Some v) \<Rightarrow> onNode (\<lambda>n. setAttribute n k v) w
                   | _ \<Rightarrow> onNode (\<lambda>n. removeAttribute n k) w) w ks) = boundListeners w"
    for saved :: "(string \<times> string option) list" and ks w
    by (induction ks arbitrary: w) (simp_all split: option.splits)
  then show "listeners (restoreAttributes w) = listeners w"
    "boundListeners (restoreAttributes w) = boundListeners w"
    by (simp_all add: restoreAttributes_def split: option.splits)
qed

lemma boundListeners_unbind_all:
  "boundListeners (foldl (\<lambda>w l. unbind l w) w xs) =
     filter (\<lambda>b. listenerId b \<notin> listenerId ` set xs) (boundListeners w)"
  by (induction xs arbitrary: w) (auto simp: unbind_def intro!: filter_cong)

lemma removeListeners_bound:
  "set (boundListeners (snd (removeListeners ns w))) \<subseteq> set (boundListeners w)"
  by (auto simp: removeListeners_def boundListeners_unbind_all split: option.splits)

lemma removeListeners_listeners [simp]: "listeners (snd (removeListeners ns w)) = listeners w"
  by (simp add: removeListeners_def split: option.splits)

lemma mount_listeners [simp]: "listeners (snd (mount w)) = listeners w"
  by (cases w rule: mount_cases) (simp_all add: forget_def)

lemma mount_bound: "set (boundListeners (snd (mount w))) \<subseteq> set (boundListeners w)"
proof -
  have "set (boundListeners (snd (removeListeners DISMOUNTING ((restoreAttributes w)\<lparr>doc := d\<rparr>))))
          \<subseteq> set (boundListeners w)" for d
    using removeListeners_bound[of DISMOUNTING "(restoreAttributes w)\<lparr>doc := d\<rparr>"] by simp
  then show ?thesis
    by (cases w rule: mount_cases) (simp_all add: forget_def)
qed

lemma register_bound:
  "boundListeners (runTimer RegisterDismissal v) = boundListeners v @ [dismissal v]"
  by (simp add: addListener_def listen_def Let_def dismissal_def split: option.splits)

lemma register_listeners:
  "\<exists>ls xs. listeners (runTimer RegisterDismissal v) = Some ls \<and>
           map_of ls OPENING = Some (xs @ [dismissal v])"
  by (auto simp: addListener_def listen_def Let_def dismissal_def update_conv' split: option.splits)

text \<open>\<^verbatim>\<open>close\<close> on an open panel, by whether \<^verbatim>\<open>mount\<close> lets it go on.\<close>

lemma close_cases:
  assumes "state w = Open"
  obtains (mountFails) e where "isDismounted w"
      and "fst (mount (onNode (\<lambda>n. removeAttribute n ''open'') (w\<lparr>state := Closed\<rparr>))) = Some e"
      and "close w = (Some e, snd (mount (onNode (\<lambda>n. removeAttribute n ''open'') (w\<lparr>state := Closed\<rparr>))))"
  | (proceeds) w3 where
      "w3 = (if isDismounted w
             then snd (mount (onNode (\<lambda>n. removeAttribute n ''open'') (w\<lparr>state := Closed\<rparr>)))
             else onNode (\<lambda>n. removeAttribute n ''open'') (w\<lparr>state := Closed\<rparr>))"
      and "close w = removeListeners OPENING
             (if hasOnClose (removeOverflowingAttributes w3)
              then callHook ''onClose'' (removeOverflowingAttributes w3)
              else removeOverflowingAttributes w3)"
proof (cases "isDismounted w")
  case False
  with assms show ?thesis
    by (intro proceeds[OF refl]) (simp add: close_def isClosed_def Let_def del: removeOverflowingAttributes_listeners)
next
  case True
  obtain r w3 where m: "mount (onNode (\<lambda>n. removeAttribute n ''open'') (w\<lparr>state := Closed\<rparr>)) = (r, w3)"
    by (cases "mount (onNode (\<lambda>n. removeAttribute n ''open'') (w\<lparr>state := Closed\<rparr>))")
  show ?thesis
  proof (cases r)
    case None
    with assms True m show ?thesis
      by (intro proceeds[OF refl]) (simp add: close_def isClosed_def Let_def del: removeOverflowingAttributes_listeners)
  next
    case (Some e)
    with assms True m show ?thesis
      by (intro mountFails[of e]) (simp_all add: close_def isClosed_def Let_def)
  qed
qed

lemma close_unbinds:
  assumes "listeners w = Some ls" and "map_of ls OPENING = Some xs" and "l \<in> set xs"
    and "fst (close w) = None" and "state w = Open"
  shows "listenerId l \<notin> listenerId ` set (boundListeners (snd (close w)))"
  using assms(5)
proof (cases w rule: close_cases)
  case (mountFails e)
  with assms(4) show ?thesis by simp
next
  case (proceeds w3)
  have "listeners w3 = Some ls"
    using assms(1) by (simp add: proceeds(1))
  then show ?thesis
    using assms(2,3) unfolding proceeds(2)
    by (auto simp: removeListeners_def boundListeners_unbind_all) (metis imageI)
qed

lemma close_returns:
  assumes "listeners w = Some ls" and "map_of ls OPENING = Some xs" and "\<not> isDismounted w"
    and "state w = Open"
  shows "fst (close w) = None"
  using assms(4)
proof (cases w rule: close_cases)
  case (mountFails e)
  with assms(3) show ?thesis by simp
next
  case (proceeds w3)
  have "listeners w3 = Some ls"
    using assms(1) by (simp add: proceeds(1))
  then show ?thesis
    using assms(2) unfolding proceeds(2) by (simp add: removeListeners_def)
qed


subsection \<open>After open\<close>

lemma cloneNode_documentElement [simp]:
  "documentElement (snd (cloneNode n d)) = documentElement d" "body (snd (cloneNode n d)) = body d"
  by (simp_all add: cloneNode_def Let_def)

lemma styleForDismount_listeners [simp]:
  "listeners (styleForDismount a l t w) = listeners w"
  "boundListeners (styleForDismount a l t w) = boundListeners w"
  "timers (styleForDismount a l t w) = timers w"
  "nextListenerId (styleForDismount a l t w) = nextListenerId w"
  "postponeOverflowCalculating (styleForDismount a l t w) = postponeOverflowCalculating w"
  by (simp_all add: styleForDismount_def Let_def)

lemma addListener_bound:
  "boundListeners (addListener ns t ty h c w) =
     boundListeners w @ [\<lparr>listenerId = nextListenerId w, listenerTarget = t, listenerType = ty,
                           listenerHandler = h, useCapture = c\<rparr>]"
  "postponeOverflowCalculating (addListener ns t ty h c w) = postponeOverflowCalculating w"
  by (simp_all add: addListener_def listen_def Let_def split: option.splits)

lemma relocate_listeners:
  "timers (snd (relocate a w)) = timers w"
  "postponeOverflowCalculating (snd (relocate a w)) = postponeOverflowCalculating w"
  "pointerupOnlyDismisses w \<Longrightarrow> pointerupOnlyDismisses (snd (relocate a w))"
  by (simp_all add: relocate_def Let_def pointerupOnlyDismisses_def addListener_bound
      split: option.splits sum.splits)

lemma dismount_listeners:
  "timers (snd (dismount ps w)) = timers w"
  "postponeOverflowCalculating (snd (dismount ps w)) = postponeOverflowCalculating w"
  "pointerupOnlyDismisses w \<Longrightarrow> pointerupOnlyDismisses (snd (dismount ps w))"
  by (simp_all add: dismount_def Let_def relocate_listeners pointerupOnlyDismisses_def[of "styleForDismount a l t w" for a l t w]
        pointerupOnlyDismisses_def[of w]
      split: option.splits prod.splits)


lemma pointerupOnlyDismisses_cong:
  "boundListeners w' = boundListeners w \<Longrightarrow> pointerupOnlyDismisses w' = pointerupOnlyDismisses w"
  by (simp add: pointerupOnlyDismisses_def)

lemma pointerupOnlyDismisses_subset:
  "set (boundListeners w') \<subseteq> set (boundListeners w) \<Longrightarrow> pointerupOnlyDismisses w \<Longrightarrow>
     pointerupOnlyDismisses w'"
  by (auto simp: pointerupOnlyDismisses_def list_all_iff)

lemma openPanel_after:
  assumes "state w = Closed" and "openPanel ps w = (None, w1)"
  shows "state w1 = Open"
    and "timers w1 = timers w @ [if postponeOverflowCalculating w then ResumeOpen else RegisterDismissal]"
    and "pointerupOnlyDismisses w \<Longrightarrow> pointerupOnlyDismisses w1"
proof -
  define w0 where "w0 = (if isDismountingNeeded w
               then dismount (case ps of None \<Rightarrow> noParams | Some ps \<Rightarrow> ps) w
               else (None, w))"
  define w3 where "w3 = onNode (\<lambda>n. setAttribute n ''open'' ''true'') ((snd w0)\<lparr>state := Open\<rparr>)"
  define w4 where "w4 = (if hasOnOpen w3 then callHook ''onOpen'' w3 else w3)"
  have w0: "timers (snd w0) = timers w"
    "postponeOverflowCalculating (snd w0) = postponeOverflowCalculating w"
    "pointerupOnlyDismisses w \<Longrightarrow> pointerupOnlyDismisses (snd w0)"
    by (simp_all add: w0_def dismount_listeners)
  have w4: "state w4 = Open" "timers w4 = timers w"
    "postponeOverflowCalculating w4 = postponeOverflowCalculating w"
    "boundListeners w4 = boundListeners (snd w0)"
    using w0(1,2) by (simp_all add: w4_def w3_def callHook_def)
  from assms have w1: "w1 = (if postponeOverflowCalculating w4 then w4\<lparr>timers := timers w4 @ [ResumeOpen]\<rparr>
                     else resumeOpen w4)"
    by (cases w0) (auto simp: openPanel_def isOpen_def Let_def w0_def w3_def w4_def split: option.splits if_splits)
  show "state w1 = Open"
    and "timers w1 = timers w @ [if postponeOverflowCalculating w then ResumeOpen else RegisterDismissal]"
    using w4 by (simp_all add: w1)
  show "pointerupOnlyDismisses w1" if "pointerupOnlyDismisses w"
    using w0(3)[OF that] w4(4) by (simp add: w1 pointerupOnlyDismisses_def)
qed

lemma registered:
  assumes "state v = Open" and "pointerupOnlyDismisses v"
  defines "A \<equiv> runTimer RegisterDismissal v"
  shows "state A = Open"
    and "contains (doc A) (documentElement (doc A)) t \<Longrightarrow> \<not> contains (doc A) (node A) t \<Longrightarrow>
           dispatch A (PointerUpAt t) = snd (close A)"
    and "contains (doc A) (node A) t \<Longrightarrow> dispatch A (PointerUpAt t) = A"
    and "nextListenerId v \<in> listenerId ` set (listenersFor (TargetElement (documentElement (doc A))) ''pointerup'' A)"
    and "fst (close A) = None \<Longrightarrow> nextListenerId v \<notin> listenerId ` set (boundListeners (snd (close A)))"
    and "\<not> isDismounted A \<Longrightarrow> fst (close A) = None"
proof -
  let ?L = "listenersFor (TargetElement (documentElement (doc A))) ''pointerup'' A"
  have b: "boundListeners A = boundListeners v @ [dismissal v]"
    unfolding A_def by (rule register_bound)
  obtain ls xs where ls: "listeners A = Some ls" "map_of ls OPENING = Some (xs @ [dismissal v])"
    using register_listeners[of v] unfolding A_def by blast
  show s: "state A = Open" using assms(1) by (simp add: A_def)
  have d: "doc A = doc v" by (simp add: A_def)
  have L: "?L = filter (\<lambda>l. listenerTarget l = TargetElement (documentElement (doc v)) \<and>
                              listenerType l = ''pointerup'') (boundListeners v) @ [dismissal v]"
    by (simp add: listenersFor_def b d dismissal_def)
  show "nextListenerId v \<in> listenerId ` set ?L"
    unfolding L by (simp add: dismissal_def)
  have Lne: "?L \<noteq> []" unfolding L by simp
  have hdL: "listenerId (hd ?L) \<in> listenerId ` set (boundListeners A)"
  proof -
    have "hd ?L \<in> set ?L" using Lne by (rule hd_in_set)
    then have "hd ?L \<in> set (boundListeners A)" by (simp add: listenersFor_def)
    then show ?thesis by (rule imageI)
  qed
  show "dispatch A (PointerUpAt t) = snd (close A)"
    if "contains (doc A) (documentElement (doc A)) t" "\<not> contains (doc A) (node A) t"
    using that(1) deliver_outside[OF that(2) Lne hdL] by simp
  have "list_all (\<lambda>l. listenerHandler l = DismissOnPointerUp) ?L"
    using assms(2) unfolding L by (auto simp: pointerupOnlyDismisses_def list_all_iff dismissal_def)
  then show "dispatch A (PointerUpAt t) = A" if "contains (doc A) (node A) t"
    using deliver_inside[OF that] by simp
  show "nextListenerId v \<notin> listenerId ` set (boundListeners (snd (close A)))" if "fst (close A) = None"
    using close_unbinds[OF ls, of "dismissal v", OF _ that s] by (simp add: dismissal_def)
  show "fst (close A) = None" if "\<not> isDismounted A"
    using close_returns[OF ls that s] .
qed

text \<open>
  C4, amended. Let \<^verbatim>\<open>open\<close> return on a closed panel with no timer waiting, and let the
  timers it leaves fire (one, or two when the overflow calculation is postponed); call the
  world then \<open>w2\<close>. The panel is open. A pointerup that reaches
  \<^verbatim>\<open>document.documentElement\<close> with a target outside the node runs \<^verbatim>\<open>close\<close> and leaves
  the panel closed; a pointerup with a target inside the node changes nothing. The
  listener the timer bound (its number is \<open>nextListenerId w1\<close>) is among the pointerup
  listeners of \<open>w2\<close>, and a \<^verbatim>\<open>close\<close> that returns unbinds it; \<^verbatim>\<open>close\<close> returns whenever
  the panel is not dismounted.
\<close>

theorem dismissal_after_registration:
  assumes "state w = Closed" and "timers w = []" and "pointerupOnlyDismisses w"
    and "openPanel ps w = (None, w1)"
    and "w2 = (if postponeOverflowCalculating w then dispatch (dispatch w1 TimerFires) TimerFires
               else dispatch w1 TimerFires)"
  shows "state w2 = Open \<and>
     (contains (doc w2) (documentElement (doc w2)) t \<and> \<not> contains (doc w2) (node w2) t \<longrightarrow>
        dispatch w2 (PointerUpAt t) = snd (close w2) \<and> state (dispatch w2 (PointerUpAt t)) = Closed) \<and>
     (contains (doc w2) (node w2) t \<longrightarrow> dispatch w2 (PointerUpAt t) = w2) \<and>
     nextListenerId w1 \<in>
       listenerId ` set (listenersFor (TargetElement (documentElement (doc w2))) ''pointerup'' w2) \<and>
     (fst (close w2) = None \<longrightarrow> nextListenerId w1 \<notin> listenerId ` set (boundListeners (snd (close w2)))) \<and>
     (\<not> isDismounted w2 \<longrightarrow> fst (close w2) = None)"
proof -
  note after = openPanel_after[OF assms(1,4)]
  define v where "v = (if postponeOverflowCalculating w then (resumeOpen (w1\<lparr>timers := []\<rparr>))\<lparr>timers := []\<rparr>
                       else w1\<lparr>timers := []\<rparr>)"
  have w2: "w2 = runTimer RegisterDismissal v"
    using after(2) assms(2) by (simp add: assms(5) v_def)
  have v: "state v = Open" "pointerupOnlyDismisses v" "nextListenerId v = nextListenerId w1"
    using after(1) after(3)[OF assms(3)] by (simp_all add: v_def pointerupOnlyDismisses_def)
  note r = registered[OF v(1,2), folded w2, unfolded v(3)]
  show ?thesis
    using r(1) r(2)[of t] r(3)[of t] r(4) r(5) r(6) by simp
qed


theorem dismissal_after_registration_witness:
  "state (dispatch (snd (openPanel None aPanel)) TimerFires) = Open \<and>
   dispatch (dispatch (snd (openPanel None aPanel)) TimerFires) (PointerUpAt 5) =
     snd (close (dispatch (snd (openPanel None aPanel)) TimerFires)) \<and>
   state (dispatch (dispatch (snd (openPanel None aPanel)) TimerFires) (PointerUpAt 5)) = Closed \<and>
   dispatch (dispatch (snd (openPanel None aPanel)) TimerFires) (PointerUpAt 4) =
     dispatch (snd (openPanel None aPanel)) TimerFires \<and>
   fst (close (dispatch (snd (openPanel None aPanel)) TimerFires)) = None \<and>
   nextListenerId (snd (openPanel None aPanel)) \<notin>
     listenerId ` set (boundListeners (snd (close (dispatch (snd (openPanel None aPanel)) TimerFires))))"
proof -
  let ?w1 = "snd (openPanel None aPanel)"
  let ?w2 = "dispatch ?w1 TimerFires"
  have c: "state aPanel = Closed" "timers aPanel = []" "pointerupOnlyDismisses aPanel"
    "\<not> postponeOverflowCalculating aPanel"
    by (simp_all add: aPanel_def newPanel_def pointerupOnlyDismisses_def)
  have "fst (openPanel None aPanel) = None"
    by (rule openPanel_returns) (simp add: aPanel_def newPanel_def)
  then have o: "openPanel None aPanel = (None, ?w1)" by (simp add: prod_eq_iff)
  have w2: "?w2 = (if postponeOverflowCalculating aPanel then dispatch (dispatch ?w1 TimerFires) TimerFires
                   else dispatch ?w1 TimerFires)"
    using c(4) by simp
  have e: "contains (doc ?w2) (documentElement (doc ?w2)) 5" "\<not> contains (doc ?w2) (node ?w2) 5"
    "contains (doc ?w2) (node ?w2) 4" "\<not> isDismounted ?w2"
    by code_simp+
  show ?thesis
    using dismissal_after_registration[OF c(1,2,3) o w2, of 5] dismissal_after_registration[OF c(1,2,3) o w2, of 4] e by simp
qed

text \<open>
  C4 as stated fails: \<^verbatim>\<open>open\<close> leaves the registration of the listener to a timer, so a
  pointerup outside the node that arrives after \<^verbatim>\<open>open\<close> has returned and before the timer
  has fired finds no listener, and the panel stays open.
\<close>

theorem pointerup_before_registration_keeps_open:
  "fst (openPanel None aPanel) = None \<and>
   contains (doc (snd (openPanel None aPanel))) (documentElement (doc (snd (openPanel None aPanel)))) 5 \<and>
   \<not> contains (doc (snd (openPanel None aPanel))) (node (snd (openPanel None aPanel))) 5 \<and>
   state (dispatch (snd (openPanel None aPanel)) (PointerUpAt 5)) = Open"
  by code_simp

subsection \<open>The invariant of the pointerup listeners\<close>

lemma pointerupOnlyDismisses_newPanel: "pointerupOnlyDismisses (newPanel d l s n)"
  by (simp add: pointerupOnlyDismisses_def newPanel_def)

lemma pointerupOnlyDismisses_openPanel:
  assumes "pointerupOnlyDismisses w"
  shows "pointerupOnlyDismisses (snd (openPanel ps w))"
proof -
  define w0 where "w0 = (if isDismountingNeeded w
               then dismount (case ps of None \<Rightarrow> noParams | Some ps \<Rightarrow> ps) w
               else (None, w))"
  have w0: "pointerupOnlyDismisses (snd w0)"
    using assms by (simp add: w0_def dismount_listeners)
  show ?thesis
    using assms w0
    by (cases w0; cases "fst w0")
       (auto simp: openPanel_def Let_def w0_def[symmetric] pointerupOnlyDismisses_def callHook_def)
qed

lemma close_bound: "set (boundListeners (snd (close w))) \<subseteq> set (boundListeners w)"
proof (cases "state w")
  case Closed
  then show ?thesis by (simp add: close_closed)
next
  case Open
  then show ?thesis
  proof (cases w rule: close_cases)
    case (mountFails e)
    then show ?thesis
      using mount_bound[of "onNode (\<lambda>n. removeAttribute n ''open'') (w\<lparr>state := Closed\<rparr>)"] by simp
  next
    case (proceeds w3)
    have "set (boundListeners w3) \<subseteq> set (boundListeners w)"
      using mount_bound[of "onNode (\<lambda>n. removeAttribute n ''open'') (w\<lparr>state := Closed\<rparr>)"]
      by (simp add: proceeds(1))
    then show ?thesis
      unfolding proceeds(2)
      using removeListeners_bound[of OPENING "callHook ''onClose'' (removeOverflowingAttributes w3)"]
        removeListeners_bound[of OPENING "removeOverflowingAttributes w3"]
      by (auto split: if_splits)
  qed
qed

lemma pointerupOnlyDismisses_close: "pointerupOnlyDismisses w \<Longrightarrow> pointerupOnlyDismisses (snd (close w))"
  using close_bound by (rule pointerupOnlyDismisses_subset)

lemma pointerupOnlyDismisses_runHandler:
  "pointerupOnlyDismisses w \<Longrightarrow> pointerupOnlyDismisses (runHandler e h w)"
  by (cases h) (simp_all add: Let_def onDocumentScroll_panel_def pointerupOnlyDismisses_close)

lemma pointerupOnlyDismisses_deliver:
  "pointerupOnlyDismisses w \<Longrightarrow> pointerupOnlyDismisses (deliver e ls w)"
  by (induction ls arbitrary: w) (simp_all add: pointerupOnlyDismisses_runHandler)

lemma pointerupOnlyDismisses_runTimer:
  "pointerupOnlyDismisses w \<Longrightarrow> pointerupOnlyDismisses (runTimer c w)"
  by (cases c) (simp_all add: pointerupOnlyDismisses_def addListener_bound)

lemma pointerupOnlyDismisses_dispatch:
  "pointerupOnlyDismisses w \<Longrightarrow> pointerupOnlyDismisses (dispatch w e)"
proof (cases e)
  case TimerFires
  assume a: "pointerupOnlyDismisses w"
  then have "pointerupOnlyDismisses (w\<lparr>timers := ts\<rparr>)" for ts
    by (simp add: pointerupOnlyDismisses_def)
  then show ?thesis
    using TimerFires a by (cases "timers w") (simp_all add: pointerupOnlyDismisses_runTimer)
qed (simp_all add: pointerupOnlyDismisses_deliver)



subsection \<open>Ancestors\<close>











subsection \<open>The two moves of dismount and the two moves of mount\<close>










subsection \<open>Well-formed documents\<close>










subsection \<open>The clone\<close>





subsection \<open>Dismount and mount in the world\<close>

lemma setAttribute_tree [simp]:
  "parentOf (setAttribute n name v d) = parentOf d" "childrenOf (setAttribute n name v d) = childrenOf d"
  "nodes (setAttribute n name v d) = nodes d" "body (setAttribute n name v d) = body d"
  "documentElement (setAttribute n name v d) = documentElement d"
  by (simp_all add: setAttribute_def)

lemma removeAttribute_tree [simp]:
  "parentOf (removeAttribute n name d) = parentOf d" "childrenOf (removeAttribute n name d) = childrenOf d"
  "nodes (removeAttribute n name d) = nodes d" "body (removeAttribute n name d) = body d"
  "documentElement (removeAttribute n name d) = documentElement d"
  by (simp_all add: removeAttribute_def)

lemma setStyleProperty_tree [simp]:
  "parentOf (setStyleProperty n property v d) = parentOf d"
  "childrenOf (setStyleProperty n property v d) = childrenOf d"
  "nodes (setStyleProperty n property v d) = nodes d" "body (setStyleProperty n property v d) = body d"
  "documentElement (setStyleProperty n property v d) = documentElement d"
  by (simp_all add: setStyleProperty_def)


lemma styleForDismount_tree [simp]:
  "parentOf (doc (styleForDismount a l t w)) = parentOf (doc w)"
  "childrenOf (doc (styleForDismount a l t w)) = childrenOf (doc w)"
  "nodes (doc (styleForDismount a l t w)) = nodes (doc w)"
  "body (doc (styleForDismount a l t w)) = body (doc w)"
  "documentElement (doc (styleForDismount a l t w)) = documentElement (doc w)"
  "isDismounted (styleForDismount a l t w) = isDismounted w"
  by (simp_all add: styleForDismount_def Let_def onNode_def onDoc_def)


text \<open>Two documents with the same nodes and parents contain the same.\<close>

lemma contains_tree:
  "nodes d' = nodes d \<Longrightarrow> parentOf d' = parentOf d \<Longrightarrow> contains d' = contains d"
  by (intro ext) (simp add: contains_def)

lemma nextSibling_tree:
  "childrenOf d' = childrenOf d \<Longrightarrow> parentOf d' = parentOf d \<Longrightarrow> nextSibling d' = nextSibling d"
  by (intro ext) (simp add: nextSibling_def cong: option.case_cong)




subsection \<open>The round trip of dismount and mount\<close>








end
